theory Spec2Isabelle
  imports Main "HOL-Library.Word"
begin

unbundle bit_operations_syntax

section \<open>Data model of the streaming session (src/app/streaming/session.cpp)\<close>

subsection \<open>Preferences, host and application\<close>

datatype VideoDecoderSelection = VDS_AUTO | VDS_FORCE_HARDWARE | VDS_FORCE_SOFTWARE

datatype VideoCodecConfig = VCC_AUTO | VCC_FORCE_H264 | VCC_FORCE_HEVC | VCC_FORCE_HEVC_HDR

datatype AudioConfig = AC_STEREO | AC_51_SURROUND

datatype WindowMode = WM_FULLSCREEN | WM_FULLSCREEN_DESKTOP | WM_WINDOWED

text \<open>The fields of \<open>StreamingPreferences\<close> that session.cpp reads.\<close>

record StreamingPreferences =
  pref_width :: int
  pref_height :: int
  pref_fps :: int
  pref_bitrateKbps :: int
  pref_audioConfig :: AudioConfig
  pref_videoCodecConfig :: VideoCodecConfig
  pref_videoDecoderSelection :: VideoDecoderSelection
  pref_windowMode :: WindowMode
  pref_unsupportedFps :: bool
  pref_enableVsync :: bool
  pref_framePacing :: bool
  pref_quitAppAfter :: bool
  pref_connectionWarnings :: bool

text \<open>The fields of \<open>NvComputer\<close> and \<open>NvApp\<close> that session.cpp reads.\<close>

record NvComputer =
  gfeVersion :: string
  maxLumaPixelsHEVC :: int
  serverCodecModeSupport :: int
  currentGameId :: int
  displayModes :: "(int \<times> int) list"

record NvApp =
  app_id :: int
  app_name :: string
  hdrSupported :: bool

subsection \<open>Constants of the transport library\<close>

text \<open>
  The transport library's header (Limelight.h) is not part of the sources at hand. Its
  named constants are used by session.cpp only as symbols, so they are enumerations here.
\<close>

datatype video_format = VIDEO_FORMAT_H264 | VIDEO_FORMAT_H265 | VIDEO_FORMAT_H265_MAIN10

datatype audio_configuration = AUDIO_CONFIGURATION_STEREO | AUDIO_CONFIGURATION_51_SURROUND

datatype decode_result = DR_OK | DR_NEED_IDR

datatype streaming_remotely = STREAM_CFG_UNSET | STREAM_CFG_AUTO

type_synonym byte = "8 word"

text \<open>
  \<open>STREAM_CONFIGURATION\<close>. \<open>LiInitializeStreamConfiguration\<close> clears the structure; the two
  key buffers are 16 bytes long.
\<close>

record STREAM_CONFIGURATION =
  cfg_width :: int
  cfg_height :: int
  cfg_fps :: int
  cfg_bitrate :: int
  cfg_hevcBitratePercentageMultiplier :: int
  cfg_streamingRemotely :: streaming_remotely
  cfg_packetSize :: int
  cfg_audioConfiguration :: audio_configuration
  cfg_supportsHevc :: bool
  cfg_enableHdr :: bool
  cfg_remoteInputAesKey :: "byte list"
  cfg_remoteInputAesIv :: "byte list"

definition LiInitializeStreamConfiguration :: STREAM_CONFIGURATION where
  "LiInitializeStreamConfiguration =
     \<lparr>cfg_width = 0, cfg_height = 0, cfg_fps = 0, cfg_bitrate = 0,
      cfg_hevcBitratePercentageMultiplier = 0, cfg_streamingRemotely = STREAM_CFG_UNSET,
      cfg_packetSize = 0, cfg_audioConfiguration = AUDIO_CONFIGURATION_STEREO,
      cfg_supportsHevc = False, cfg_enableHdr = False,
      cfg_remoteInputAesKey = replicate 16 0, cfg_remoteInputAesIv = replicate 16 0\<rparr>"

subsection \<open>Video decoders\<close>

datatype sdl_window = TestWindow | StreamWindow

record DECODER_PARAMETERS =
  dp_width :: int
  dp_height :: int
  dp_frameRate :: int
  dp_videoFormat :: video_format
  dp_window :: sdl_window
  dp_enableVsync :: bool
  dp_enableFramePacing :: bool
  dp_vds :: VideoDecoderSelection

datatype decode_unit = DecodeUnit (frameNumber: int) (payload: "byte list")

text \<open>
  An initialized \<open>IVideoDecoder\<close>: what it answers to \<open>isHardwareAccelerated()\<close> and
  \<open>getDecoderCapabilities()\<close>, the units it has been given so far, and the result of
  \<open>submitDecodeUnit\<close> as a function of those and of the new unit.
\<close>

record IVideoDecoder =
  dec_isHardwareAccelerated :: bool
  dec_getDecoderCapabilities :: int
  dec_units :: "decode_unit list"
  dec_result :: "decode_unit list \<Rightarrow> decode_unit \<Rightarrow> decode_result"

definition submitDecodeUnit :: "IVideoDecoder \<Rightarrow> decode_unit \<Rightarrow> decode_result \<times> IVideoDecoder" where
  "submitDecodeUnit decoder du =
     (dec_result decoder (dec_units decoder) du,
      decoder\<lparr>dec_units := dec_units decoder @ [du]\<rparr>)"

text \<open>
  A decoder class: \<open>new D(testOnly)\<close> followed by \<open>initialize(&params)\<close>. The value is
  \<open>None\<close> when \<open>initialize\<close> returns false (the candidate is deleted), and the initialized
  decoder otherwise.
\<close>

type_synonym decoder_class = "bool \<Rightarrow> DECODER_PARAMETERS \<Rightarrow> IVideoDecoder option"

subsection \<open>The world outside session.cpp\<close>

text \<open>
  Everything session.cpp asks of its collaborators during initialization and validation.
  A decoder class that is not compiled in (\<open>HAVE_SLVIDEO\<close>, \<open>HAVE_FFMPEG\<close> undefined) is
  \<open>None\<close>. \<open>MAX_SLICES\<close> (session.h), \<open>CAPABILITY_SLICES_PER_FRAME\<close> (Limelight.h),
  \<open>Session::getAudioRendererCapabilities\<close>, \<open>Session::testAudio\<close> and \<open>NvHTTP::parseQuad\<close> are
  defined outside session.cpp and are taken as parameters. \<open>parseQuad\<close> gives the four
  numbers of a dotted version, and an empty vector (\<open>None\<close>) for an empty version.
  \<open>RAND_source\<close> is the random source: the bytes it hands out, by position. The answers
  are functions of the question alone: a probe repeated with the same arguments gives
  the same answer.

  For \<open>Session::exec\<close>: how the control-plane call (\<open>NvHTTP::resumeApp\<close>,
  \<open>NvHTTP::launchApp\<close>) ends, the callbacks the transport makes while \<open>LiStartConnection\<close>
  runs and the value it returns, whether the stream window can be created, the display
  the window is on at first, and the refresh rate of each display.
\<close>

datatype http_result = HttpOk | GfeHttpResponseException string | QtNetworkReplyException string

datatype connection_callback =
    StageStarting int
  | StageFailed int int
  | VideoSetup video_format int int int

record environment =
  SLVideoDecoder :: "decoder_class option"
  FFmpegVideoDecoder :: "decoder_class option"
  SDL_InitSubSystem_VIDEO :: int
  SDL_CreateWindow_hidden :: bool
  SDL_GetCPUCount :: int
  MAX_SLICES :: int
  CAPABILITY_SLICES_PER_FRAME :: "int \<Rightarrow> int"
  Q_OS_DARWIN :: bool
  parseQuad :: "string \<Rightarrow> (int \<times> int \<times> int \<times> int) option"
  RAND_source :: "nat \<Rightarrow> byte"
  getAudioRendererCapabilities :: "audio_configuration \<Rightarrow> int"
  testAudio :: "audio_configuration \<Rightarrow> bool"
  getUnmappedGamepads :: "string list"
  resumeApp_result :: http_result
  launchApp_result :: http_result
  LiGetStageName :: "int \<Rightarrow> string"
  LiStartConnection_callbacks :: "connection_callback list"
  LiStartConnection_result :: int
  SDL_CreateWindow_stream :: bool
  SDL_GetWindowDisplayIndex_first :: int
  getDisplayRefreshRate :: "int \<Rightarrow> int"

subsection \<open>The session\<close>

text \<open>The signals a session emits to the user interface.\<close>

datatype ui_signal =
    stageStarting string
  | stageFailed string int
  | displayLaunchWarning string
  | displayLaunchError string
  | connectionStarted
  | quitStarting
  | sessionFinished

text \<open>
  The input handler object: the rumble requests it has been given, and whether it has been
  deleted. A pointer to it is an \<open>option\<close>: \<open>None\<close> is the null pointer, and \<open>Some h\<close> with
  \<open>ih_deleted h\<close> is a pointer left behind by \<open>delete\<close>.
\<close>

record SdlInputHandler =
  ih_deleted :: bool
  ih_rumbles :: "(16 word \<times> 16 word \<times> 16 word) list"

text \<open>The video stream the transport reported to \<open>drSetup\<close>.\<close>

record ACTIVE_VIDEO =
  m_ActiveVideoFormat :: video_format
  m_ActiveVideoWidth :: int
  m_ActiveVideoHeight :: int
  m_ActiveVideoFrameRate :: int

text \<open>
  What a session does to the state of the process and to its collaborators, as far as the
  order of these operations matters: the admission semaphore
  \<open>s_ActiveSessionSemaphore\<close>, the pointer \<open>s_ActiveSession\<close>, the control-plane calls,
  the transport, and the start of the cleanup task on the thread pool.
  \<open>Call_LiStartConnection audio\<close> records whether audio callbacks were passed.
\<close>

datatype action =
    Acquire_Semaphore
  | Release_Semaphore
  | Set_ActiveSession
  | Clear_ActiveSession
  | Call_resumeApp
  | Call_launchApp
  | Call_quitApp
  | Call_LiStartConnection bool
  | Call_LiStopConnection
  | Start_CleanupTask

text \<open>
  The members of \<open>Session\<close> that the modelled functions read or write. A null pointer is
  \<open>None\<close>. Three fields record what the session has done so far, oldest first: \<open>emitted\<close>
  the signals emitted, \<open>audio_probes\<close> the layouts \<open>testAudio\<close> has been called with,
  \<open>actions\<close> the operations above. \<open>rand_pos\<close> is the number of bytes taken from the
  random source.
\<close>

record Session =
  m_Preferences :: StreamingPreferences
  m_Computer :: NvComputer
  m_App :: NvApp
  m_StreamConfig :: STREAM_CONFIGURATION
  m_VideoCallbacks_capabilities :: int
  m_AudioCallbacks_capabilities :: int
  m_VideoDecoder :: "IVideoDecoder option"
  m_DecoderLock :: int
  m_NeedsIdr :: bool
  m_AudioDisabled :: bool
  m_UnexpectedTermination :: bool
  m_InputHandler :: "SdlInputHandler option"
  m_InputHandlerLock :: int
  m_ActiveVideo :: ACTIVE_VIDEO
  emitted :: "ui_signal list"
  audio_probes :: "audio_configuration list"
  actions :: "action list"
  rand_pos :: nat

text \<open>
  The constructor \<open>Session::Session\<close>, for the members above. It leaves the stream
  configuration, the callback capabilities and the active video stream unset; the first
  two start here from the cleared values that \<open>initialize\<close> gives them first, the last
  is written by \<open>drSetup\<close> before it is read.
\<close>

definition Session_new :: "NvComputer \<Rightarrow> NvApp \<Rightarrow> StreamingPreferences \<Rightarrow> Session" where
  "Session_new computer app preferences =
     \<lparr>m_Preferences = preferences, m_Computer = computer, m_App = app,
      m_StreamConfig = LiInitializeStreamConfiguration,
      m_VideoCallbacks_capabilities = 0, m_AudioCallbacks_capabilities = 0,
      m_VideoDecoder = None, m_DecoderLock = 0, m_NeedsIdr = False,
      m_AudioDisabled = False, m_UnexpectedTermination = True,
      m_InputHandler = None, m_InputHandlerLock = 0,
      m_ActiveVideo = \<lparr>m_ActiveVideoFormat = VIDEO_FORMAT_H264, m_ActiveVideoWidth = 0,
                       m_ActiveVideoHeight = 0, m_ActiveVideoFrameRate = 0\<rparr>,
      emitted = [], audio_probes = [], actions = [], rand_pos = 0\<rparr>"

section \<open>Decoder selection and probes\<close>

text \<open>
  \<open>Session::chooseDecoder\<close>: the SLVideo decoder first, then the FFmpeg-based one, each only
  if compiled in; the first whose \<open>initialize\<close> succeeds is chosen. \<open>None\<close> is the return
  value false, with \<open>chosenDecoder\<close> null.
\<close>

definition try_decoder :: "decoder_class option \<Rightarrow> bool \<Rightarrow> DECODER_PARAMETERS \<Rightarrow> IVideoDecoder option" where
  "try_decoder cls testOnly params =
     (case cls of None \<Rightarrow> None | Some new_decoder \<Rightarrow> new_decoder testOnly params)"

definition chooseDecoder ::
  "environment \<Rightarrow> VideoDecoderSelection \<Rightarrow> sdl_window \<Rightarrow> video_format \<Rightarrow> int \<Rightarrow> int \<Rightarrow> int \<Rightarrow>
   bool \<Rightarrow> bool \<Rightarrow> bool \<Rightarrow> IVideoDecoder option" where
  "chooseDecoder env vds window videoFormat width height frameRate enableVsync enableFramePacing testOnly =
     (let params = \<lparr>dp_width = width, dp_height = height, dp_frameRate = frameRate,
                     dp_videoFormat = videoFormat, dp_window = window,
                     dp_enableVsync = enableVsync, dp_enableFramePacing = enableFramePacing,
                     dp_vds = vds\<rparr>
      in case try_decoder (SLVideoDecoder env) testOnly params of
           Some chosenDecoder \<Rightarrow> Some chosenDecoder
         | None \<Rightarrow>
             (case try_decoder (FFmpegVideoDecoder env) testOnly params of
                Some chosenDecoder \<Rightarrow> Some chosenDecoder
              | None \<Rightarrow> None))"

text \<open>\<open>Session::isHardwareDecodeAvailable\<close>: a test-only probe with V-sync on and frame pacing off.\<close>

definition isHardwareDecodeAvailable ::
  "environment \<Rightarrow> sdl_window \<Rightarrow> VideoDecoderSelection \<Rightarrow> video_format \<Rightarrow> int \<Rightarrow> int \<Rightarrow> int \<Rightarrow> bool" where
  "isHardwareDecodeAvailable env window vds videoFormat width height frameRate =
     (case chooseDecoder env vds window videoFormat width height frameRate True False True of
        None \<Rightarrow> False
      | Some decoder \<Rightarrow> dec_isHardwareAccelerated decoder)"

text \<open>
  \<open>Session::getDecoderCapabilities\<close>: the same probe; the function returns \<open>int\<close>, so its
  \<open>return false\<close> is the value 0.
\<close>

definition getDecoderCapabilities ::
  "environment \<Rightarrow> sdl_window \<Rightarrow> VideoDecoderSelection \<Rightarrow> video_format \<Rightarrow> int \<Rightarrow> int \<Rightarrow> int \<Rightarrow> int" where
  "getDecoderCapabilities env window vds videoFormat width height frameRate =
     (case chooseDecoder env vds window videoFormat width height frameRate True False True of
        None \<Rightarrow> 0
      | Some decoder \<Rightarrow> dec_getDecoderCapabilities decoder)"

section \<open>Submission of decode units\<close>

text \<open>
  The SDL spinlock is an \<open>int\<close>: 0 when free. \<open>SDL_AtomicTryLock\<close> takes a free lock and
  reports whether it did; \<open>SDL_AtomicUnlock\<close> stores 0.
\<close>

definition SDL_AtomicTryLock :: "int \<Rightarrow> bool \<times> int" where
  "SDL_AtomicTryLock lock = (if lock = 0 then (True, 1) else (False, lock))"

definition SDL_AtomicUnlock :: "int \<Rightarrow> int" where
  "SDL_AtomicUnlock lock = 0"

text \<open>\<open>Session::drSubmitDecodeUnit\<close>, on the active session.\<close>

definition drSubmitDecodeUnit :: "decode_unit \<Rightarrow> Session \<Rightarrow> decode_result \<times> Session" where
  "drSubmitDecodeUnit du s =
     (case SDL_AtomicTryLock (m_DecoderLock s) of
        (True, held) \<Rightarrow>
          (let s1 = s\<lparr>m_DecoderLock := held\<rparr> in
           if m_NeedsIdr s1 then
             (let s2 = s1\<lparr>m_NeedsIdr := False\<rparr>
              in (DR_NEED_IDR, s2\<lparr>m_DecoderLock := SDL_AtomicUnlock (m_DecoderLock s2)\<rparr>))
           else
             (case m_VideoDecoder s1 of
                Some decoder \<Rightarrow>
                  (let (ret, decoder') = submitDecodeUnit decoder du;
                       s2 = s1\<lparr>m_VideoDecoder := Some decoder'\<rparr>
                   in (ret, s2\<lparr>m_DecoderLock := SDL_AtomicUnlock (m_DecoderLock s2)\<rparr>))
              | None \<Rightarrow> (DR_OK, s1\<lparr>m_DecoderLock := SDL_AtomicUnlock (m_DecoderLock s1)\<rparr>)))
      | (False, _) \<Rightarrow> (DR_OK, s))"

section \<open>Building the stream configuration: \<open>Session::initialize\<close>\<close>

text \<open>
  \<open>RAND_bytes(buf, n)\<close> writes the next \<open>n\<close> bytes of the random source to \<open>buf\<close>.
  session.cpp does not look at its return value.
\<close>

definition RAND_bytes :: "environment \<Rightarrow> nat \<Rightarrow> nat \<Rightarrow> byte list" where
  "RAND_bytes env pos n = map (RAND_source env) [pos..<pos + n]"

text \<open>
  \<open>Session::emitLaunchWarning\<close>: the signal, then a wait of 3.5 seconds that pumps the user
  interface and changes nothing of the session.
\<close>

definition emitLaunchWarning :: "string \<Rightarrow> Session \<Rightarrow> Session" where
  "emitLaunchWarning text s = s\<lparr>emitted := emitted s @ [displayLaunchWarning text]\<rparr>"

definition emit_displayLaunchError :: "string \<Rightarrow> Session \<Rightarrow> Session" where
  "emit_displayLaunchError text s = s\<lparr>emitted := emitted s @ [displayLaunchError text]\<rparr>"

text \<open>\<open>QString::startsWith\<close>.\<close>

definition startsWith :: "string \<Rightarrow> string \<Rightarrow> bool" where
  "startsWith str pre = (take (length pre) str = pre)"

text \<open>
  Lines 342 to 348 of \<open>initialize\<close>: \<open>LiInitializeVideoCallbacks\<close> clears the callback
  structure, and the slices capability is OR-ed into the cleared capabilities.
\<close>

definition initialize_video_callbacks :: "environment \<Rightarrow> Session \<Rightarrow> Session" where
  "initialize_video_callbacks env s =
     (let slices = min (MAX_SLICES env) (SDL_GetCPUCount env)
      in s\<lparr>m_VideoCallbacks_capabilities := 0 OR CAPABILITY_SLICES_PER_FRAME env slices\<rparr>)"

text \<open>
  Lines 353 to 386: the base fields from the preferences, the key and the first four bytes
  of the initialization vector from the random source, the audio configuration.
\<close>

definition initialize_stream_config :: "environment \<Rightarrow> Session \<Rightarrow> Session" where
  "initialize_stream_config env s =
     (let prefs = m_Preferences s;
          cfg0 = LiInitializeStreamConfiguration;
          cfg1 = cfg0\<lparr>cfg_width := pref_width prefs,
                      cfg_height := pref_height prefs,
                      cfg_fps := pref_fps prefs,
                      cfg_bitrate := pref_bitrateKbps prefs,
                      cfg_hevcBitratePercentageMultiplier := 75,
                      cfg_streamingRemotely := STREAM_CFG_AUTO,
                      cfg_packetSize := 1392\<rparr>;
          key = RAND_bytes env (rand_pos s) (length (cfg_remoteInputAesKey cfg1));
          pos1 = rand_pos s + length (cfg_remoteInputAesKey cfg1);
          iv = RAND_bytes env pos1 4 @ drop 4 (cfg_remoteInputAesIv cfg1);
          pos2 = pos1 + 4;
          cfg2 = cfg1\<lparr>cfg_remoteInputAesKey := key, cfg_remoteInputAesIv := iv\<rparr>;
          cfg3 = cfg2\<lparr>cfg_audioConfiguration :=
                        (case pref_audioConfig prefs of
                           AC_STEREO \<Rightarrow> AUDIO_CONFIGURATION_STEREO
                         | AC_51_SURROUND \<Rightarrow> AUDIO_CONFIGURATION_51_SURROUND)\<rparr>
      in s\<lparr>m_StreamConfig := cfg3,
           m_AudioCallbacks_capabilities :=
             getAudioRendererCapabilities env (cfg_audioConfiguration cfg3),
           rand_pos := pos2\<rparr>)"

text \<open>
  The macOS rule of lines 409 to 412 on the parsed host version: too old when there is
  none, or when it is below 3.11.
\<close>

fun gfe_too_old_for_hevc :: "(int \<times> int \<times> int \<times> int) option \<Rightarrow> bool" where
  "gfe_too_old_for_hevc None = True"
| "gfe_too_old_for_hevc (Some (major, minor, _, _)) = (major < 3 \<or> (major = 3 \<and> minor < 11))"

text \<open>Lines 392 to 433: the codec switch.\<close>

definition initialize_codec :: "environment \<Rightarrow> sdl_window \<Rightarrow> Session \<Rightarrow> Session" where
  "initialize_codec env testWindow s =
     (let prefs = m_Preferences s; cfg = m_StreamConfig s in
      case pref_videoCodecConfig prefs of
        VCC_AUTO \<Rightarrow>
          (let hevc = isHardwareDecodeAvailable env testWindow (pref_videoDecoderSelection prefs)
                        VIDEO_FORMAT_H265 (cfg_width cfg) (cfg_height cfg) (cfg_fps cfg);
               hevc' = (if Q_OS_DARWIN env \<and>
                           gfe_too_old_for_hevc (parseQuad env (gfeVersion (m_Computer s)))
                        then False else hevc)
           in s\<lparr>m_StreamConfig := cfg\<lparr>cfg_supportsHevc := hevc', cfg_enableHdr := False\<rparr>\<rparr>)
      | VCC_FORCE_H264 \<Rightarrow>
          s\<lparr>m_StreamConfig := cfg\<lparr>cfg_supportsHevc := False, cfg_enableHdr := False\<rparr>\<rparr>
      | VCC_FORCE_HEVC \<Rightarrow>
          s\<lparr>m_StreamConfig := cfg\<lparr>cfg_supportsHevc := True, cfg_enableHdr := False\<rparr>\<rparr>
      | VCC_FORCE_HEVC_HDR \<Rightarrow>
          s\<lparr>m_StreamConfig := cfg\<lparr>cfg_supportsHevc := True, cfg_enableHdr := True\<rparr>\<rparr>)"

text \<open>Lines 435 to 442: the capability flags of the probed decoder.\<close>

definition initialize_decoder_capabilities :: "environment \<Rightarrow> sdl_window \<Rightarrow> Session \<Rightarrow> Session" where
  "initialize_decoder_capabilities env testWindow s =
     (let prefs = m_Preferences s; cfg = m_StreamConfig s
      in s\<lparr>m_VideoCallbacks_capabilities :=
             m_VideoCallbacks_capabilities s OR
             getDecoderCapabilities env testWindow (pref_videoDecoderSelection prefs)
               (if cfg_supportsHevc cfg then VIDEO_FORMAT_H265 else VIDEO_FORMAT_H264)
               (cfg_width cfg) (cfg_height cfg) (cfg_fps cfg)\<rparr>)"

section \<open>Launch validation: \<open>Session::validateLaunch\<close>\<close>

text \<open>Lines 489 to 499: forced software decoding, unsupported frame rates.\<close>

definition validate_settings :: "Session \<Rightarrow> Session" where
  "validate_settings s =
     (let prefs = m_Preferences s;
          s1 = (if pref_videoDecoderSelection prefs = VDS_FORCE_SOFTWARE
                then emitLaunchWarning ''Your settings selection to force software decoding may cause poor streaming performance.'' s
                else s)
      in if pref_unsupportedFps prefs \<and> cfg_fps (m_StreamConfig s1) > 60 then
           (let s2 = emitLaunchWarning ''Using unsupported FPS options may cause stuttering or lag.'' s1
            in if pref_enableVsync prefs
               then emitLaunchWarning ''V-sync will be disabled when streaming at a higher frame rate than the display.'' s2
               else s2)
         else s1)"

text \<open>Lines 501 to 532: HEVC.\<close>

definition validate_hevc :: "environment \<Rightarrow> sdl_window \<Rightarrow> Session \<Rightarrow> Session" where
  "validate_hevc env testWindow s =
     (let prefs = m_Preferences s in
      if cfg_supportsHevc (m_StreamConfig s) then
        (let hevcForced = (pref_videoCodecConfig prefs = VCC_FORCE_HEVC \<or>
                           pref_videoCodecConfig prefs = VCC_FORCE_HEVC_HDR);
             s1 = (if \<not> isHardwareDecodeAvailable env testWindow (pref_videoDecoderSelection prefs)
                        VIDEO_FORMAT_H265 (cfg_width (m_StreamConfig s))
                        (cfg_height (m_StreamConfig s)) (cfg_fps (m_StreamConfig s)) \<and>
                      pref_videoDecoderSelection prefs = VDS_AUTO
                   then
                     (if hevcForced
                      then emitLaunchWarning ''Using software decoding due to your selection to force HEVC without GPU support. This may cause poor streaming performance.'' s
                      else (let s' = emitLaunchWarning ''This PC's GPU doesn't support HEVC decoding.'' s
                            in s'\<lparr>m_StreamConfig := (m_StreamConfig s')\<lparr>cfg_supportsHevc := False\<rparr>\<rparr>))
                   else s)
         in if hevcForced then
              (if maxLumaPixelsHEVC (m_Computer s1) = 0 then
                 (let s' = emitLaunchWarning ''Your host PC GPU doesn't support HEVC. A GeForce GTX 900-series (Maxwell) or later GPU is required for HEVC streaming.'' s1
                  in s'\<lparr>m_StreamConfig := (m_StreamConfig s')\<lparr>cfg_supportsHevc := False\<rparr>\<rparr>)
               else s1)
            else s1)
      else s)"

text \<open>Lines 534 to 561: HDR is turned back off unless all criteria are met.\<close>

definition validate_hdr :: "environment \<Rightarrow> sdl_window \<Rightarrow> Session \<Rightarrow> Session" where
  "validate_hdr env testWindow s =
     (if cfg_enableHdr (m_StreamConfig s) then
        (let s1 = s\<lparr>m_StreamConfig := (m_StreamConfig s)\<lparr>cfg_enableHdr := False\<rparr>\<rparr> in
         if \<not> hdrSupported (m_App s1) then
           emitLaunchWarning (app_name (m_App s1) @ '' doesn't support HDR10.'') s1
         else if (serverCodecModeSupport (m_Computer s1) AND 0x200) = 0 then
           emitLaunchWarning ''Your host PC GPU doesn't support HDR streaming. A GeForce GTX 1000-series (Pascal) or later GPU is required for HDR streaming.'' s1
         else if \<not> isHardwareDecodeAvailable env testWindow
                     (pref_videoDecoderSelection (m_Preferences s1)) VIDEO_FORMAT_H265_MAIN10
                     (cfg_width (m_StreamConfig s1)) (cfg_height (m_StreamConfig s1))
                     (cfg_fps (m_StreamConfig s1)) then
           emitLaunchWarning ''This PC's GPU doesn't support HEVC Main10 decoding for HDR streaming.'' s1
         else s1\<lparr>m_StreamConfig := (m_StreamConfig s1)\<lparr>cfg_enableHdr := True\<rparr>\<rparr>)
      else s)"

text \<open>Lines 563 to 571: 4K only on GFE 3.x and later.\<close>

definition validate_4k :: "Session \<Rightarrow> Session" where
  "validate_4k s =
     (if cfg_width (m_StreamConfig s) \<ge> 3840 then
        (if gfeVersion (m_Computer s) = [] \<or> startsWith (gfeVersion (m_Computer s)) ''2.'' then
           (let s1 = emitLaunchWarning ''GeForce Experience 3.0 or higher is required for 4K streaming.'' s
            in s1\<lparr>m_StreamConfig := (m_StreamConfig s1)\<lparr>cfg_width := 1920, cfg_height := 1080\<rparr>\<rparr>)
         else s)
      else s)"

text \<open>Lines 573 to 589: the audio test, with the fallback from 5.1 surround to stereo.\<close>

definition call_testAudio :: "environment \<Rightarrow> audio_configuration \<Rightarrow> Session \<Rightarrow> bool \<times> Session" where
  "call_testAudio env layout s = (testAudio env layout, s\<lparr>audio_probes := audio_probes s @ [layout]\<rparr>)"

definition validate_audio :: "environment \<Rightarrow> Session \<Rightarrow> Session" where
  "validate_audio env s =
     (let (audioTestPassed, s1) = call_testAudio env (cfg_audioConfiguration (m_StreamConfig s)) s;
          (audioTestPassed', s2) =
            (if \<not> audioTestPassed \<and>
                cfg_audioConfiguration (m_StreamConfig s1) = AUDIO_CONFIGURATION_51_SURROUND
             then
               (let (retry, s1') = call_testAudio env AUDIO_CONFIGURATION_STEREO s1 in
                if retry then
                  (let s1'' = s1'\<lparr>m_StreamConfig := (m_StreamConfig s1')\<lparr>cfg_audioConfiguration := AUDIO_CONFIGURATION_STEREO\<rparr>\<rparr>
                   in (retry, emitLaunchWarning ''5.1 surround sound is not supported by the current audio device.'' s1''))
                else (retry, s1'))
             else (audioTestPassed, s1));
          s3 = s2\<lparr>m_AudioDisabled := \<not> audioTestPassed'\<rparr>
      in if m_AudioDisabled s3
         then emitLaunchWarning ''Failed to open audio device. Audio will be unavailable during this session.'' s3
         else s3)"

text \<open>Lines 591 to 594: gamepads without a mapping.\<close>

definition validate_gamepads :: "environment \<Rightarrow> Session \<Rightarrow> Session" where
  "validate_gamepads env s =
     (if getUnmappedGamepads env \<noteq> []
      then emitLaunchWarning ''An attached gamepad has no mapping and won't be usable. Visit the Moonlight help to resolve this.'' s
      else s)"

text \<open>Lines 596 to 614: forced hardware decoding that cannot be satisfied fails the launch.\<close>

definition validate_forced_hardware :: "environment \<Rightarrow> sdl_window \<Rightarrow> Session \<Rightarrow> bool \<times> Session" where
  "validate_forced_hardware env testWindow s =
     (let prefs = m_Preferences s; cfg = m_StreamConfig s in
      if pref_videoDecoderSelection prefs = VDS_FORCE_HARDWARE \<and>
         \<not> isHardwareDecodeAvailable env testWindow (pref_videoDecoderSelection prefs)
             (if cfg_supportsHevc cfg then VIDEO_FORMAT_H265 else VIDEO_FORMAT_H264)
             (cfg_width cfg) (cfg_height cfg) (cfg_fps cfg)
      then
        (if pref_videoCodecConfig prefs = VCC_AUTO
         then (False, emit_displayLaunchError ''Your selection to force hardware decoding cannot be satisfied due to missing hardware decoding support on this PC's GPU.'' s)
         else (False, emit_displayLaunchError ''Your codec selection and force hardware decoding setting are not compatible. This PC's GPU lacks support for decoding your chosen codec.'' s))
      else (True, s))"

text \<open>
  \<open>Session::validateLaunch\<close>: the checks above, in the order of the source. All but the
  last can only warn.
\<close>

definition validate_warnings :: "environment \<Rightarrow> sdl_window \<Rightarrow> Session \<Rightarrow> Session" where
  "validate_warnings env testWindow s =
     validate_gamepads env
       (validate_audio env
         (validate_4k
           (validate_hdr env testWindow
             (validate_hevc env testWindow
               (validate_settings s)))))"

definition validateLaunch :: "environment \<Rightarrow> sdl_window \<Rightarrow> Session \<Rightarrow> bool \<times> Session" where
  "validateLaunch env testWindow s =
     validate_forced_hardware env testWindow (validate_warnings env testWindow s)"

text \<open>
  \<open>Session::initialize\<close>. It returns false, before anything of the configuration is built,
  when the video subsystem or the hidden test window cannot be had, and otherwise what
  \<open>validateLaunch\<close> returns. The full-screen flag it also sets is not read by any function
  modelled here.
\<close>

definition initialize :: "environment \<Rightarrow> Session \<Rightarrow> bool \<times> Session" where
  "initialize env s =
     (if SDL_InitSubSystem_VIDEO env \<noteq> 0 then (False, s)
      else if \<not> SDL_CreateWindow_hidden env then (False, s)
      else
        (let testWindow = TestWindow;
             s1 = initialize_video_callbacks env s;
             s2 = initialize_stream_config env s1;
             s3 = initialize_codec env testWindow s2;
             s4 = initialize_decoder_capabilities env testWindow s3
         in validateLaunch env testWindow s4))"

section \<open>Callbacks of the connection\<close>

text \<open>
  The static callbacks act on the session \<open>s_ActiveSession\<close> points to, which is the
  session given here. \<open>clConnectionTerminated\<close> also pushes an \<open>SDL_QUIT\<close> event; the event
  is part of what the event loop is given to poll.
\<close>

definition clStageStarting :: "environment \<Rightarrow> int \<Rightarrow> Session \<Rightarrow> Session" where
  "clStageStarting env stage s =
     s\<lparr>emitted := emitted s @ [stageStarting (LiGetStageName env stage)]\<rparr>"

definition clStageFailed :: "environment \<Rightarrow> int \<Rightarrow> int \<Rightarrow> Session \<Rightarrow> Session" where
  "clStageFailed env stage errorCode s =
     s\<lparr>emitted := emitted s @ [stageFailed (LiGetStageName env stage) errorCode]\<rparr>"

definition clConnectionTerminated :: "int \<Rightarrow> Session \<Rightarrow> Session" where
  "clConnectionTerminated errorCode s =
     (if errorCode \<noteq> 0
      then emit_displayLaunchError ''Connection terminated'' (s\<lparr>m_UnexpectedTermination := True\<rparr>)
      else s)"

definition drSetup :: "video_format \<Rightarrow> int \<Rightarrow> int \<Rightarrow> int \<Rightarrow> Session \<Rightarrow> Session" where
  "drSetup videoFormat width height frameRate s =
     s\<lparr>m_ActiveVideo := \<lparr>m_ActiveVideoFormat = videoFormat, m_ActiveVideoWidth = width,
                          m_ActiveVideoHeight = height, m_ActiveVideoFrameRate = frameRate\<rparr>\<rparr>"

fun run_callback :: "environment \<Rightarrow> connection_callback \<Rightarrow> Session \<Rightarrow> Session" where
  "run_callback env (StageStarting stage) s = clStageStarting env stage s"
| "run_callback env (StageFailed stage errorCode) s = clStageFailed env stage errorCode s"
| "run_callback env (VideoSetup videoFormat width height frameRate) s =
     drSetup videoFormat width height frameRate s"

text \<open>
  \<open>SDL_AtomicLock\<close> spins until it has taken the lock. With nobody else running it
  returns if and only if the lock is free; \<open>None\<close> stands for spinning on.
\<close>

definition SDL_AtomicLock :: "int \<Rightarrow> int option" where
  "SDL_AtomicLock lock = (if lock = 0 then Some 1 else None)"

text \<open>
  \<open>delete m_InputHandler\<close> and \<open>m_InputHandler = nullptr\<close>, the two statements of every
  place that destroys the input handler.
\<close>

definition delete_InputHandler :: "Session \<Rightarrow> Session" where
  "delete_InputHandler s =
     s\<lparr>m_InputHandler := map_option (\<lambda>h. h\<lparr>ih_deleted := True\<rparr>) (m_InputHandler s)\<rparr>"

definition null_InputHandler :: "Session \<Rightarrow> Session" where
  "null_InputHandler s = s\<lparr>m_InputHandler := None\<rparr>"

text \<open>
  \<open>Session::clRumble\<close>, run to its end with nobody else running: it spins when the lock is
  taken; with the lock it calls \<open>rumble\<close> on the object \<open>m_InputHandler\<close> points to, unless
  the pointer is null, and unlocks.
\<close>

datatype rumble_result = Spins | Calls_deleted_handler | Returns Session

definition clRumble :: "16 word \<Rightarrow> 16 word \<Rightarrow> 16 word \<Rightarrow> Session \<Rightarrow> rumble_result" where
  "clRumble controllerNumber lowFreqMotor highFreqMotor s =
     (case SDL_AtomicLock (m_InputHandlerLock s) of
        None \<Rightarrow> Spins
      | Some held \<Rightarrow>
          (let s1 = s\<lparr>m_InputHandlerLock := held\<rparr> in
           case m_InputHandler s1 of
             Some handler \<Rightarrow>
               (if ih_deleted handler then Calls_deleted_handler
                else
                  (let handler' = handler\<lparr>ih_rumbles := ih_rumbles handler @
                                      [(controllerNumber, lowFreqMotor, highFreqMotor)]\<rparr>;
                       s2 = s1\<lparr>m_InputHandler := Some handler'\<rparr>
                   in Returns (s2\<lparr>m_InputHandlerLock := SDL_AtomicUnlock (m_InputHandlerLock s2)\<rparr>)))
           | None \<Rightarrow> Returns (s1\<lparr>m_InputHandlerLock := SDL_AtomicUnlock (m_InputHandlerLock s1)\<rparr>)))"

section \<open>Running a session: \<open>Session::exec\<close> and the cleanup task\<close>

definition do_action :: "action \<Rightarrow> Session \<Rightarrow> Session" where
  "do_action a s = s\<lparr>actions := actions s @ [a]\<rparr>"

definition emit_signal :: "ui_signal \<Rightarrow> Session \<Rightarrow> Session" where
  "emit_signal sig s = s\<lparr>emitted := emitted s @ [sig]\<rparr>"

text \<open>
  How \<open>exec\<close> ends: it returns with no cleanup task started (\<open>Finished\<close>), it returns
  after starting the cleanup task (\<open>Dispatched\<close>), it is still in the event loop when the
  given events are used up (\<open>Streaming\<close>), or it spins on a lock that is taken (\<open>Blocked\<close>).
\<close>

datatype exec_outcome = Finished Session | Dispatched Session | Streaming Session | Blocked Session

text \<open>
  The three statements that end every failure path of \<open>exec\<close> after the input handler
  was created (lines 909 to 913, 916 to 920, 947 to 950 and 971 to 974; the error signal
  of the first two comes between them): the input handler is deleted and the pointer
  cleared, without taking \<open>m_InputHandlerLock\<close>, and the cleanup task is started.
\<close>

definition abort_exec :: "Session \<Rightarrow> exec_outcome" where
  "abort_exec s = Dispatched (do_action Start_CleanupTask s)"

text \<open>
  Lines 851 to 956 of \<open>exec\<close>: initialization, the wait for the previous session, the
  control-plane call and the start of the transport. The result is how \<open>exec\<close> ended, or
  the session when the connection has started. The choice of the game-optimization
  argument of \<open>launchApp\<close> is not modelled.
\<close>

definition exec_connect :: "environment \<Rightarrow> Session \<Rightarrow> exec_outcome + Session" where
  "exec_connect env s0 =
     (case initialize env s0 of
        (False, s1) \<Rightarrow> Inl (Finished (emit_signal sessionFinished s1))
      | (True, s1) \<Rightarrow>
          (let s2 = do_action Acquire_Semaphore s1;
               s3 = do_action Set_ActiveSession s2;
               s4 = s3\<lparr>m_InputHandler := Some \<lparr>ih_deleted = False, ih_rumbles = []\<rparr>\<rparr>;
               (s5, result) =
                 (if currentGameId (m_Computer s4) \<noteq> 0
                  then (do_action Call_resumeApp s4, resumeApp_result env)
                  else (do_action Call_launchApp s4, launchApp_result env))
           in case result of
                GfeHttpResponseException e \<Rightarrow>
                  Inl (abort_exec
                        (emit_displayLaunchError (''GeForce Experience returned error: '' @ e)
                          (null_InputHandler (delete_InputHandler s5))))
              | QtNetworkReplyException e \<Rightarrow>
                  Inl (abort_exec
                        (emit_displayLaunchError e
                          (null_InputHandler (delete_InputHandler s5))))
              | HttpOk \<Rightarrow>
                  (let s6 = do_action (Call_LiStartConnection (\<not> m_AudioDisabled s5)) s5;
                       s7 = fold (run_callback env) (LiStartConnection_callbacks env) s6
                   in if LiStartConnection_result env \<noteq> 0
                      then Inl (abort_exec (null_InputHandler (delete_InputHandler s7)))
                      else Inr (emit_signal connectionStarted s7))))"

text \<open>
  Lines 958 to 1053: the stream window, and the flag \<open>m_UnexpectedTermination\<close> cleared
  just before the event loop. The geometry of the window, its icon and the mouse capture
  are not modelled.
\<close>

definition exec_start :: "environment \<Rightarrow> Session \<Rightarrow> exec_outcome + Session" where
  "exec_start env s0 =
     (case exec_connect env s0 of
        Inl outcome \<Rightarrow> Inl outcome
      | Inr s1 \<Rightarrow>
          (if \<not> SDL_CreateWindow_stream env
           then Inl (abort_exec (null_InputHandler (delete_InputHandler s1)))
           else Inr (s1\<lparr>m_UnexpectedTermination := False\<rparr>)))"

text \<open>
  The label \<open>DispatchDeferredCleanup\<close> (lines 1250 to 1307): the input handler and the
  decoder are destroyed, each under its lock, and the cleanup task is started.
\<close>

definition DispatchDeferredCleanup :: "Session \<Rightarrow> exec_outcome" where
  "DispatchDeferredCleanup s =
     (case SDL_AtomicLock (m_InputHandlerLock s) of
        None \<Rightarrow> Blocked s
      | Some held \<Rightarrow>
          (let s1 = s\<lparr>m_InputHandlerLock := held\<rparr>;
               s2 = null_InputHandler (delete_InputHandler s1);
               s3 = s2\<lparr>m_InputHandlerLock := SDL_AtomicUnlock (m_InputHandlerLock s2)\<rparr>
           in case SDL_AtomicLock (m_DecoderLock s3) of
                None \<Rightarrow> Blocked s3
              | Some held' \<Rightarrow>
                  (let s4 = s3\<lparr>m_DecoderLock := held'\<rparr>;
                       s5 = s4\<lparr>m_VideoDecoder := None\<rparr>;
                       s6 = s5\<lparr>m_DecoderLock := SDL_AtomicUnlock (m_DecoderLock s5)\<rparr>
                   in Dispatched (do_action Start_CleanupTask s6))))"

text \<open>
  Lines 1158 to 1212, the replacement of the decoder: under \<open>m_DecoderLock\<close> the old
  decoder is deleted and a new one chosen for the active video stream, with V-sync forced
  off when the stream is faster than the display (plus 5 Hz). Without a new decoder the
  session ends through \<open>DispatchDeferredCleanup\<close>; with one, \<open>m_NeedsIdr\<close> is set.
\<close>

definition recreate_decoder :: "environment \<Rightarrow> int \<Rightarrow> Session \<Rightarrow> exec_outcome + Session" where
  "recreate_decoder env display s =
     (case SDL_AtomicLock (m_DecoderLock s) of
        None \<Rightarrow> Inl (Blocked s)
      | Some held \<Rightarrow>
          (let s1 = s\<lparr>m_DecoderLock := held\<rparr>;
               prefs = m_Preferences s1;
               video = m_ActiveVideo s1;
               displayHz = getDisplayRefreshRate env display;
               enableVsync = (if displayHz + 5 < cfg_fps (m_StreamConfig s1) then False
                              else pref_enableVsync prefs);
               chosen = chooseDecoder env (pref_videoDecoderSelection prefs) StreamWindow
                          (m_ActiveVideoFormat video) (m_ActiveVideoWidth video)
                          (m_ActiveVideoHeight video) (m_ActiveVideoFrameRate video)
                          enableVsync (enableVsync \<and> pref_framePacing prefs) False;
               s2 = s1\<lparr>m_VideoDecoder := chosen\<rparr>
           in case chosen of
                None \<Rightarrow>
                  (let s3 = s2\<lparr>m_DecoderLock := SDL_AtomicUnlock (m_DecoderLock s2)\<rparr>
                   in Inl (DispatchDeferredCleanup
                            (emit_displayLaunchError ''Unable to initialize video decoder. Please check your streaming settings and try again.'' s3)))
              | Some decoder \<Rightarrow>
                  (let s3 = s2\<lparr>m_NeedsIdr := True\<rparr>
                   in Inr (s3\<lparr>m_DecoderLock := SDL_AtomicUnlock (m_DecoderLock s3)\<rparr>))))"

text \<open>
  What the event loop meets, in order: an event it polls, with the display the window is
  on at that moment, or a call of \<open>clConnectionTerminated\<close> by the transport between two
  polls. Events of the keyboard, mouse, controllers and touch screen go to the input
  handler and are one case here. A frame-ready event (\<open>SDL_USEREVENT\<close>) is pushed by the
  installed decoder and only renders a frame. The events that \<open>SDL_FlushEvent\<close> removes
  from the queue when the decoder is replaced are never polled, so they are not in the
  list.
\<close>

datatype window_event =
    SDL_WINDOWEVENT_FOCUS_GAINED
  | SDL_WINDOWEVENT_FOCUS_LOST
  | SDL_WINDOWEVENT_SIZE_CHANGED
  | SDL_WINDOWEVENT_SHOWN
  | SDL_WINDOWEVENT_OTHER

datatype sdl_event =
    SDL_QUIT
  | SDL_USEREVENT
  | SDL_WINDOWEVENT window_event
  | SDL_RENDER_DEVICE_RESET
  | SDL_RENDER_TARGETS_RESET
  | SDL_INPUT_EVENT

datatype loop_input = Polled sdl_event int | Terminated int

text \<open>The event loop of lines 1061 to 1248, with \<open>currentDisplayIndex\<close> as an argument.\<close>

fun event_loop :: "environment \<Rightarrow> int \<Rightarrow> loop_input list \<Rightarrow> Session \<Rightarrow> exec_outcome" where
  "event_loop env currentDisplayIndex [] s = Streaming s"
| "event_loop env currentDisplayIndex (Terminated errorCode # rest) s =
     event_loop env currentDisplayIndex rest (clConnectionTerminated errorCode s)"
| "event_loop env currentDisplayIndex (Polled SDL_QUIT display # rest) s =
     DispatchDeferredCleanup s"
| "event_loop env currentDisplayIndex (Polled SDL_USEREVENT display # rest) s =
     event_loop env currentDisplayIndex rest s"
| "event_loop env currentDisplayIndex (Polled (SDL_WINDOWEVENT we) display # rest) s =
     (if we \<noteq> SDL_WINDOWEVENT_SIZE_CHANGED \<and> we \<noteq> SDL_WINDOWEVENT_SHOWN \<and>
         display = currentDisplayIndex
      then event_loop env currentDisplayIndex rest s
      else (case recreate_decoder env display s of
              Inl outcome \<Rightarrow> outcome
            | Inr s' \<Rightarrow> event_loop env display rest s'))"
| "event_loop env currentDisplayIndex (Polled SDL_RENDER_DEVICE_RESET display # rest) s =
     (case recreate_decoder env display s of
        Inl outcome \<Rightarrow> outcome
      | Inr s' \<Rightarrow> event_loop env display rest s')"
| "event_loop env currentDisplayIndex (Polled SDL_RENDER_TARGETS_RESET display # rest) s =
     (case recreate_decoder env display s of
        Inl outcome \<Rightarrow> outcome
      | Inr s' \<Rightarrow> event_loop env display rest s')"
| "event_loop env currentDisplayIndex (Polled SDL_INPUT_EVENT display # rest) s =
     event_loop env currentDisplayIndex rest s"

text \<open>\<open>Session::exec\<close>.\<close>

definition exec :: "environment \<Rightarrow> loop_input list \<Rightarrow> Session \<Rightarrow> exec_outcome" where
  "exec env inputs s0 =
     (case exec_start env s0 of
        Inl outcome \<Rightarrow> outcome
      | Inr s1 \<Rightarrow> event_loop env (SDL_GetWindowDisplayIndex_first env) inputs s1)"

text \<open>
  \<open>DeferredSessionCleanupTask::run\<close>. The two exceptions of \<open>quitApp\<close> are caught and
  dropped, so the call has no outcome to tell apart.
\<close>

definition DeferredSessionCleanupTask_run :: "Session \<Rightarrow> Session" where
  "DeferredSessionCleanupTask_run s =
     (let shouldQuit = (\<not> m_UnexpectedTermination s \<and> pref_quitAppAfter (m_Preferences s));
          s1 = (if shouldQuit then emit_signal quitStarting s else emit_signal sessionFinished s);
          s2 = do_action Call_LiStopConnection s1
      in if shouldQuit
         then emit_signal sessionFinished (do_action Call_quitApp s2)
         else s2)"

text \<open>The destructor of the cleanup task, run by the thread pool after \<open>run\<close>.\<close>

definition DeferredSessionCleanupTask_destructor :: "Session \<Rightarrow> Session" where
  "DeferredSessionCleanupTask_destructor s =
     do_action Release_Semaphore (do_action Clear_ActiveSession s)"

text \<open>\<open>Session::~Session\<close>: the semaphore is taken and given back.\<close>

definition Session_destructor :: "Session \<Rightarrow> Session" where
  "Session_destructor s = do_action Release_Semaphore (do_action Acquire_Semaphore s)"

text \<open>
  A session from \<open>exec\<close> to the end of its cleanup task, when \<open>exec\<close> started one, and the
  operations it performs on the way.
\<close>

definition run_session :: "environment \<Rightarrow> loop_input list \<Rightarrow> Session \<Rightarrow> Session" where
  "run_session env inputs s0 =
     (case exec env inputs s0 of
        Finished s \<Rightarrow> s
      | Dispatched s \<Rightarrow> DeferredSessionCleanupTask_destructor (DeferredSessionCleanupTask_run s)
      | Streaming s \<Rightarrow> s
      | Blocked s \<Rightarrow> s)"

definition session_script ::
  "environment \<Rightarrow> loop_input list \<Rightarrow> NvComputer \<Rightarrow> NvApp \<Rightarrow> StreamingPreferences \<Rightarrow> action list" where
  "session_script env inputs computer app preferences =
     actions (run_session env inputs (Session_new computer app preferences))"

section \<open>Sessions side by side\<close>

text \<open>
  The state all sessions of the process share is the semaphore \<open>s_ActiveSessionSemaphore\<close>
  (created with one token) and the pointer \<open>s_ActiveSession\<close>. Each thread of control is
  the sequence of operations it has still to perform; threads are named by their position.
  \<open>QSemaphore::acquire\<close> waits while there is no token, so a thread whose next operation is
  \<open>Acquire_Semaphore\<close> cannot move then; every other operation can always be performed.
  A thread also carries what it has done: whether it holds a token, whether it has made
  itself the active session, and whether it has called \<open>LiStartConnection\<close> and not yet
  \<open>LiStopConnection\<close>.
\<close>

record thread_state =
  holds_token :: bool
  is_active :: bool
  connected :: bool
  todo :: "action list"

record process =
  s_ActiveSessionSemaphore :: nat
  s_ActiveSession :: "nat option"
  threads :: "thread_state list"

definition new_thread :: "action list \<Rightarrow> thread_state" where
  "new_thread script = \<lparr>holds_token = False, is_active = False, connected = False, todo = script\<rparr>"

definition start_process :: "action list list \<Rightarrow> process" where
  "start_process scripts =
     \<lparr>s_ActiveSessionSemaphore = 1, s_ActiveSession = None, threads = map new_thread scripts\<rparr>"

fun on_process :: "nat \<Rightarrow> action \<Rightarrow> process \<Rightarrow> process" where
  "on_process i Acquire_Semaphore p = p\<lparr>s_ActiveSessionSemaphore := s_ActiveSessionSemaphore p - 1\<rparr>"
| "on_process i Release_Semaphore p = p\<lparr>s_ActiveSessionSemaphore := s_ActiveSessionSemaphore p + 1\<rparr>"
| "on_process i Set_ActiveSession p = p\<lparr>s_ActiveSession := Some i\<rparr>"
| "on_process i Clear_ActiveSession p = p\<lparr>s_ActiveSession := None\<rparr>"
| "on_process i a p = p"

fun on_thread :: "action \<Rightarrow> thread_state \<Rightarrow> thread_state" where
  "on_thread Acquire_Semaphore th = th\<lparr>holds_token := True\<rparr>"
| "on_thread Release_Semaphore th = th\<lparr>holds_token := False\<rparr>"
| "on_thread Set_ActiveSession th = th\<lparr>is_active := True\<rparr>"
| "on_thread Clear_ActiveSession th = th\<lparr>is_active := False\<rparr>"
| "on_thread (Call_LiStartConnection audio) th = th\<lparr>connected := True\<rparr>"
| "on_thread Call_LiStopConnection th = th\<lparr>connected := False\<rparr>"
| "on_thread a th = th"

text \<open>One move of thread \<open>i\<close>; nothing happens when it has finished or has to wait.\<close>

definition step :: "nat \<Rightarrow> process \<Rightarrow> process" where
  "step i p =
     (if i < length (threads p) then
        (case todo (threads p ! i) of
           [] \<Rightarrow> p
         | a # rest \<Rightarrow>
             (if a = Acquire_Semaphore \<and> s_ActiveSessionSemaphore p = 0 then p
              else (on_process i a p)
                     \<lparr>threads := (threads p)[i := on_thread a ((threads p ! i)\<lparr>todo := rest\<rparr>)]\<rparr>))
      else p)"

text \<open>A schedule is the order in which the threads are given a move.\<close>

fun run_schedule :: "nat list \<Rightarrow> process \<Rightarrow> process" where
  "run_schedule [] p = p"
| "run_schedule (i # schedule) p = run_schedule schedule (step i p)"

text \<open>
  The sessions of a process: each with its own collaborators and events, started from
  its constructor. The destructor \<open>~Session\<close> of a session runs on another thread, some
  time after \<open>exec\<close>.
\<close>

type_synonym session_input =
  "environment \<times> loop_input list \<times> NvComputer \<times> NvApp \<times> StreamingPreferences"

fun script_of :: "session_input \<Rightarrow> action list" where
  "script_of (env, inputs, computer, app, preferences) =
     session_script env inputs computer app preferences"

definition destructor_script :: "action list" where
  "destructor_script = [Acquire_Semaphore, Release_Semaphore]"

definition sessions_process :: "session_input list \<Rightarrow> nat \<Rightarrow> process" where
  "sessions_process sessions destructors =
     start_process (map script_of sessions @ replicate destructors destructor_script)"

section \<open>Notions used to state and prove the properties\<close>

text \<open>The three warnings of the HDR check, for an application.\<close>

definition is_hdr_warning :: "NvApp \<Rightarrow> ui_signal \<Rightarrow> bool" where
  "is_hdr_warning app sig =
     (sig = displayLaunchWarning (app_name app @ '' doesn't support HDR10.'') \<or>
      sig = displayLaunchWarning ''Your host PC GPU doesn't support HDR streaming. A GeForce GTX 1000-series (Pascal) or later GPU is required for HDR streaming.'' \<or>
      sig = displayLaunchWarning ''This PC's GPU doesn't support HEVC Main10 decoding for HDR streaming.'')"

fun is_launch_error :: "ui_signal \<Rightarrow> bool" where
  "is_launch_error (displayLaunchError text) = True"
| "is_launch_error sig = False"

fun outcome_session :: "exec_outcome \<Rightarrow> Session" where
  "outcome_session (Finished s) = s"
| "outcome_session (Dispatched s) = s"
| "outcome_session (Streaming s) = s"
| "outcome_session (Blocked s) = s"

text \<open>
  What the event loop keeps of the session it starts from: the preferences, a set flag
  \<open>m_UnexpectedTermination\<close>, and the operations, to which only the start of the cleanup
  task is added; and it does not end without that task.
\<close>

definition loop_ok :: "Session \<Rightarrow> exec_outcome \<Rightarrow> bool" where
  "loop_ok s outcome =
     (m_Preferences (outcome_session outcome) = m_Preferences s \<and>
      (m_UnexpectedTermination s \<longrightarrow> m_UnexpectedTermination (outcome_session outcome)) \<and>
      actions (outcome_session outcome) =
        actions s @ (case outcome of Dispatched s' \<Rightarrow> [Start_CleanupTask] | _ \<Rightarrow> []) \<and>
      (case outcome of Finished s' \<Rightarrow> False | _ \<Rightarrow> True))"

text \<open>
  The operations on the semaphore and on \<open>s_ActiveSession\<close>, and the start of the cleanup
  task.
\<close>

fun is_admission :: "action \<Rightarrow> bool" where
  "is_admission Acquire_Semaphore = True"
| "is_admission Release_Semaphore = True"
| "is_admission Set_ActiveSession = True"
| "is_admission Clear_ActiveSession = True"
| "is_admission Start_CleanupTask = True"
| "is_admission a = False"

text \<open>
  A sequence of operations keeps the discipline of the semaphore, for a thread that holds
  a token (\<open>h\<close>), is the active session (\<open>a\<close>) and has a connection (\<open>c\<close>) or not: it acquires
  only without a token, becomes active and connects only with one, and releases it only
  when it is neither active nor connected.
\<close>

fun script_ok :: "bool \<Rightarrow> bool \<Rightarrow> bool \<Rightarrow> action list \<Rightarrow> bool" where
  "script_ok h a c [] = True"
| "script_ok h a c (Acquire_Semaphore # rest) = (\<not> h \<and> script_ok True a c rest)"
| "script_ok h a c (Release_Semaphore # rest) = (h \<and> \<not> a \<and> \<not> c \<and> script_ok False a c rest)"
| "script_ok h a c (Set_ActiveSession # rest) = (h \<and> \<not> a \<and> script_ok h True c rest)"
| "script_ok h a c (Clear_ActiveSession # rest) = (a \<and> script_ok h False c rest)"
| "script_ok h a c (Call_LiStartConnection audio # rest) = (h \<and> script_ok h a True rest)"
| "script_ok h a c (Call_LiStopConnection # rest) = script_ok h a False rest"
| "script_ok h a c (Call_resumeApp # rest) = script_ok h a c rest"
| "script_ok h a c (Call_launchApp # rest) = script_ok h a c rest"
| "script_ok h a c (Call_quitApp # rest) = script_ok h a c rest"
| "script_ok h a c (Start_CleanupTask # rest) = script_ok h a c rest"

definition thread_ok :: "thread_state \<Rightarrow> bool" where
  "thread_ok th =
     (script_ok (holds_token th) (is_active th) (connected th) (todo th) \<and>
      (is_active th \<or> connected th \<longrightarrow> holds_token th))"

text \<open>
  The invariant of the process: the tokens held and the tokens left add up to one, every
  thread keeps the discipline, and \<open>s_ActiveSession\<close> points to the thread that has made
  itself active, if any.
\<close>

definition admission_ok :: "process \<Rightarrow> bool" where
  "admission_ok p =
     (s_ActiveSessionSemaphore p + length (filter holds_token (threads p)) = 1 \<and>
      (\<forall>i < length (threads p). thread_ok (threads p ! i)) \<and>
      (\<forall>i < length (threads p). is_active (threads p ! i) \<longleftrightarrow> s_ActiveSession p = Some i) \<and>
      (case s_ActiveSession p of None \<Rightarrow> True | Some i \<Rightarrow> i < length (threads p)))"

subsection \<open>A host, an application and preferences to run the model on\<close>

text \<open>
  A client with the FFmpeg decoder only, which decodes H.264 and HEVC in hardware and
  cannot be initialized for HEVC Main10; an audio device that plays stereo only; a host
  with GFE 3.20 whose GPU lacks the HDR bit; and preferences that ask for 4K, 5.1
  surround sound and HEVC with HDR.
\<close>

definition demo_decoder :: IVideoDecoder where
  "demo_decoder =
     \<lparr>dec_isHardwareAccelerated = True, dec_getDecoderCapabilities = 0, dec_units = [],
      dec_result = (\<lambda>units du. DR_OK)\<rparr>"

definition demo_ffmpeg :: decoder_class where
  "demo_ffmpeg testOnly params =
     (if dp_videoFormat params = VIDEO_FORMAT_H265_MAIN10 then None else Some demo_decoder)"

definition demo_env :: environment where
  "demo_env =
     \<lparr>SLVideoDecoder = None, FFmpegVideoDecoder = Some demo_ffmpeg,
      SDL_InitSubSystem_VIDEO = 0, SDL_CreateWindow_hidden = True, SDL_GetCPUCount = 8,
      MAX_SLICES = 4, CAPABILITY_SLICES_PER_FRAME = (\<lambda>slices. slices * 16777216),
      Q_OS_DARWIN = False, parseQuad = (\<lambda>version. None), RAND_source = of_nat,
      getAudioRendererCapabilities = (\<lambda>layout. 0),
      testAudio = (\<lambda>layout. layout = AUDIO_CONFIGURATION_STEREO),
      getUnmappedGamepads = [],
      resumeApp_result = HttpOk, launchApp_result = HttpOk,
      LiGetStageName = (\<lambda>stage. ''stage''),
      LiStartConnection_callbacks = [StageStarting 1, VideoSetup VIDEO_FORMAT_H265 1920 1080 60],
      LiStartConnection_result = 0, SDL_CreateWindow_stream = True,
      SDL_GetWindowDisplayIndex_first = 0, getDisplayRefreshRate = (\<lambda>display. 60)\<rparr>"

definition demo_computer :: NvComputer where
  "demo_computer =
     \<lparr>gfeVersion = ''3.20.4.14'', maxLumaPixelsHEVC = 1869449984,
      serverCodecModeSupport = 0x103, currentGameId = 0, displayModes = [(1920, 1080)]\<rparr>"

definition demo_app :: NvApp where
  "demo_app = \<lparr>app_id = 1, app_name = ''Desktop'', hdrSupported = True\<rparr>"

definition demo_prefs :: StreamingPreferences where
  "demo_prefs =
     \<lparr>pref_width = 3840, pref_height = 2160, pref_fps = 60, pref_bitrateKbps = 40000,
      pref_audioConfig = AC_51_SURROUND, pref_videoCodecConfig = VCC_FORCE_HEVC_HDR,
      pref_videoDecoderSelection = VDS_AUTO, pref_windowMode = WM_FULLSCREEN,
      pref_unsupportedFps = False, pref_enableVsync = True, pref_framePacing = False,
      pref_quitAppAfter = True, pref_connectionWarnings = True\<rparr>"

definition demo_session :: Session where
  "demo_session = Session_new demo_computer demo_app demo_prefs"

definition demo_software_decoder :: decoder_class where
  "demo_software_decoder testOnly params = Some (demo_decoder\<lparr>dec_isHardwareAccelerated := False\<rparr>)"

definition demo_failing_decoder :: decoder_class where
  "demo_failing_decoder testOnly params = None"

section \<open>Properties\<close>

subsection \<open>Submission of decode units\<close>

text \<open>
  C1. A call of the decode-unit submission entry point does one of four things, decided by
  the state it finds. If the decoder lock is taken (the try-lock fails), the call returns
  DR_OK and leaves the session as it is. If the lock is free and the needs-keyframe flag is
  set, the call clears the flag, leaves the lock free and returns DR_NEED_IDR; the decoder
  is not given the unit. If the lock is free, the flag clear and a decoder installed, the
  unit is appended to the units the decoder has received, the decoder's own result is
  returned and the lock is free afterwards. If no decoder is installed, the call returns
  DR_OK with the lock free and nothing else changed.
\<close>

theorem drSubmitDecodeUnit_cases:
  "drSubmitDecodeUnit du s =
     (if m_DecoderLock s \<noteq> 0 then (DR_OK, s)
      else if m_NeedsIdr s then (DR_NEED_IDR, s\<lparr>m_NeedsIdr := False, m_DecoderLock := 0\<rparr>)
      else case m_VideoDecoder s of
             Some decoder \<Rightarrow>
               (dec_result decoder (dec_units decoder) du,
                s\<lparr>m_VideoDecoder := Some (decoder\<lparr>dec_units := dec_units decoder @ [du]\<rparr>),
                  m_DecoderLock := 0\<rparr>)
           | None \<Rightarrow> (DR_OK, s\<lparr>m_DecoderLock := 0\<rparr>))"
  by (cases "m_VideoDecoder s")
     (simp_all add: drSubmitDecodeUnit_def SDL_AtomicTryLock_def SDL_AtomicUnlock_def
        submitDecodeUnit_def Let_def)

subsection \<open>The steps of validation\<close>

declare emitLaunchWarning_def [simp] emit_displayLaunchError_def [simp] emit_signal_def [simp]
  do_action_def [simp]

lemma validate_settings_frame [simp]:
  "m_Preferences (validate_settings s) = m_Preferences s"
  "m_Computer (validate_settings s) = m_Computer s"
  "m_App (validate_settings s) = m_App s"
  "m_VideoCallbacks_capabilities (validate_settings s) = m_VideoCallbacks_capabilities s"
  "m_AudioDisabled (validate_settings s) = m_AudioDisabled s"
  "m_UnexpectedTermination (validate_settings s) = m_UnexpectedTermination s"
  "m_InputHandlerLock (validate_settings s) = m_InputHandlerLock s"
  "audio_probes (validate_settings s) = audio_probes s"
  "actions (validate_settings s) = actions s"
  "m_StreamConfig (validate_settings s) = m_StreamConfig s"
  by (simp_all add: validate_settings_def Let_def split: prod.splits)

lemma validate_hevc_frame [simp]:
  "m_Preferences (validate_hevc env w s) = m_Preferences s"
  "m_Computer (validate_hevc env w s) = m_Computer s"
  "m_App (validate_hevc env w s) = m_App s"
  "m_VideoCallbacks_capabilities (validate_hevc env w s) = m_VideoCallbacks_capabilities s"
  "m_AudioDisabled (validate_hevc env w s) = m_AudioDisabled s"
  "m_UnexpectedTermination (validate_hevc env w s) = m_UnexpectedTermination s"
  "m_InputHandlerLock (validate_hevc env w s) = m_InputHandlerLock s"
  "audio_probes (validate_hevc env w s) = audio_probes s"
  "actions (validate_hevc env w s) = actions s"
  "cfg_width (m_StreamConfig (validate_hevc env w s)) = cfg_width (m_StreamConfig s)"
  "cfg_height (m_StreamConfig (validate_hevc env w s)) = cfg_height (m_StreamConfig s)"
  "cfg_fps (m_StreamConfig (validate_hevc env w s)) = cfg_fps (m_StreamConfig s)"
  "cfg_audioConfiguration (m_StreamConfig (validate_hevc env w s)) = cfg_audioConfiguration (m_StreamConfig s)"
  "cfg_enableHdr (m_StreamConfig (validate_hevc env w s)) = cfg_enableHdr (m_StreamConfig s)"
  by (simp_all add: validate_hevc_def Let_def split: prod.splits)

lemma validate_hdr_frame [simp]:
  "m_Preferences (validate_hdr env w s) = m_Preferences s"
  "m_Computer (validate_hdr env w s) = m_Computer s"
  "m_App (validate_hdr env w s) = m_App s"
  "m_VideoCallbacks_capabilities (validate_hdr env w s) = m_VideoCallbacks_capabilities s"
  "m_AudioDisabled (validate_hdr env w s) = m_AudioDisabled s"
  "m_UnexpectedTermination (validate_hdr env w s) = m_UnexpectedTermination s"
  "m_InputHandlerLock (validate_hdr env w s) = m_InputHandlerLock s"
  "audio_probes (validate_hdr env w s) = audio_probes s"
  "actions (validate_hdr env w s) = actions s"
  "cfg_width (m_StreamConfig (validate_hdr env w s)) = cfg_width (m_StreamConfig s)"
  "cfg_height (m_StreamConfig (validate_hdr env w s)) = cfg_height (m_StreamConfig s)"
  "cfg_fps (m_StreamConfig (validate_hdr env w s)) = cfg_fps (m_StreamConfig s)"
  "cfg_audioConfiguration (m_StreamConfig (validate_hdr env w s)) = cfg_audioConfiguration (m_StreamConfig s)"
  "cfg_supportsHevc (m_StreamConfig (validate_hdr env w s)) = cfg_supportsHevc (m_StreamConfig s)"
  by (simp_all add: validate_hdr_def Let_def split: prod.splits)

lemma validate_4k_frame [simp]:
  "m_Preferences (validate_4k s) = m_Preferences s"
  "m_Computer (validate_4k s) = m_Computer s"
  "m_App (validate_4k s) = m_App s"
  "m_VideoCallbacks_capabilities (validate_4k s) = m_VideoCallbacks_capabilities s"
  "m_AudioDisabled (validate_4k s) = m_AudioDisabled s"
  "m_UnexpectedTermination (validate_4k s) = m_UnexpectedTermination s"
  "m_InputHandlerLock (validate_4k s) = m_InputHandlerLock s"
  "audio_probes (validate_4k s) = audio_probes s"
  "actions (validate_4k s) = actions s"
  "cfg_fps (m_StreamConfig (validate_4k s)) = cfg_fps (m_StreamConfig s)"
  "cfg_audioConfiguration (m_StreamConfig (validate_4k s)) = cfg_audioConfiguration (m_StreamConfig s)"
  "cfg_supportsHevc (m_StreamConfig (validate_4k s)) = cfg_supportsHevc (m_StreamConfig s)"
  "cfg_enableHdr (m_StreamConfig (validate_4k s)) = cfg_enableHdr (m_StreamConfig s)"
  by (simp_all add: validate_4k_def Let_def split: prod.splits)

lemma validate_audio_frame [simp]:
  "m_Preferences (validate_audio env s) = m_Preferences s"
  "m_Computer (validate_audio env s) = m_Computer s"
  "m_App (validate_audio env s) = m_App s"
  "m_VideoCallbacks_capabilities (validate_audio env s) = m_VideoCallbacks_capabilities s"
  "m_UnexpectedTermination (validate_audio env s) = m_UnexpectedTermination s"
  "m_InputHandlerLock (validate_audio env s) = m_InputHandlerLock s"
  "actions (validate_audio env s) = actions s"
  "cfg_width (m_StreamConfig (validate_audio env s)) = cfg_width (m_StreamConfig s)"
  "cfg_height (m_StreamConfig (validate_audio env s)) = cfg_height (m_StreamConfig s)"
  "cfg_fps (m_StreamConfig (validate_audio env s)) = cfg_fps (m_StreamConfig s)"
  "cfg_supportsHevc (m_StreamConfig (validate_audio env s)) = cfg_supportsHevc (m_StreamConfig s)"
  "cfg_enableHdr (m_StreamConfig (validate_audio env s)) = cfg_enableHdr (m_StreamConfig s)"
  by (simp_all add: validate_audio_def call_testAudio_def Let_def split: prod.splits)

lemma validate_gamepads_frame [simp]:
  "m_Preferences (validate_gamepads env s) = m_Preferences s"
  "m_Computer (validate_gamepads env s) = m_Computer s"
  "m_App (validate_gamepads env s) = m_App s"
  "m_VideoCallbacks_capabilities (validate_gamepads env s) = m_VideoCallbacks_capabilities s"
  "m_AudioDisabled (validate_gamepads env s) = m_AudioDisabled s"
  "m_UnexpectedTermination (validate_gamepads env s) = m_UnexpectedTermination s"
  "m_InputHandlerLock (validate_gamepads env s) = m_InputHandlerLock s"
  "audio_probes (validate_gamepads env s) = audio_probes s"
  "actions (validate_gamepads env s) = actions s"
  "m_StreamConfig (validate_gamepads env s) = m_StreamConfig s"
  by (simp_all add: validate_gamepads_def Let_def split: prod.splits)

lemma validate_settings_emitted:
  assumes "\<not> P (displayLaunchWarning ''Your settings selection to force software decoding may cause poor streaming performance.'')"
    and "\<not> P (displayLaunchWarning ''Using unsupported FPS options may cause stuttering or lag.'')"
    and "\<not> P (displayLaunchWarning ''V-sync will be disabled when streaming at a higher frame rate than the display.'')"
  shows "filter P (emitted (validate_settings s)) = filter P (emitted s)"
  using assms by (simp add: validate_settings_def Let_def split: prod.splits)

lemma validate_hevc_emitted:
  assumes "\<not> P (displayLaunchWarning ''Using software decoding due to your selection to force HEVC without GPU support. This may cause poor streaming performance.'')"
    and "\<not> P (displayLaunchWarning ''This PC's GPU doesn't support HEVC decoding.'')"
    and "\<not> P (displayLaunchWarning ''Your host PC GPU doesn't support HEVC. A GeForce GTX 900-series (Maxwell) or later GPU is required for HEVC streaming.'')"
  shows "filter P (emitted (validate_hevc env w s)) = filter P (emitted s)"
  using assms by (simp add: validate_hevc_def Let_def split: prod.splits)

lemma validate_hdr_emitted:
  assumes "\<not> P (displayLaunchWarning (app_name (m_App s) @ '' doesn't support HDR10.''))"
    and "\<not> P (displayLaunchWarning ''Your host PC GPU doesn't support HDR streaming. A GeForce GTX 1000-series (Pascal) or later GPU is required for HDR streaming.'')"
    and "\<not> P (displayLaunchWarning ''This PC's GPU doesn't support HEVC Main10 decoding for HDR streaming.'')"
  shows "filter P (emitted (validate_hdr env w s)) = filter P (emitted s)"
  using assms by (simp add: validate_hdr_def Let_def split: prod.splits)

lemma validate_4k_emitted:
  assumes "\<not> P (displayLaunchWarning ''GeForce Experience 3.0 or higher is required for 4K streaming.'')"
  shows "filter P (emitted (validate_4k s)) = filter P (emitted s)"
  using assms by (simp add: validate_4k_def Let_def split: prod.splits)

lemma validate_audio_emitted:
  assumes "\<not> P (displayLaunchWarning ''5.1 surround sound is not supported by the current audio device.'')"
    and "\<not> P (displayLaunchWarning ''Failed to open audio device. Audio will be unavailable during this session.'')"
  shows "filter P (emitted (validate_audio env s)) = filter P (emitted s)"
  using assms by (simp add: validate_audio_def call_testAudio_def Let_def split: prod.splits)

lemma validate_gamepads_emitted:
  assumes "\<not> P (displayLaunchWarning ''An attached gamepad has no mapping and won't be usable. Visit the Moonlight help to resolve this.'')"
  shows "filter P (emitted (validate_gamepads env s)) = filter P (emitted s)"
  using assms by (simp add: validate_gamepads_def Let_def split: prod.splits)

lemma validate_forced_hardware_frame [simp]:
  "m_Preferences (snd (validate_forced_hardware env w s)) = m_Preferences s"
  "m_Computer (snd (validate_forced_hardware env w s)) = m_Computer s"
  "m_App (snd (validate_forced_hardware env w s)) = m_App s"
  "m_VideoCallbacks_capabilities (snd (validate_forced_hardware env w s)) = m_VideoCallbacks_capabilities s"
  "m_AudioDisabled (snd (validate_forced_hardware env w s)) = m_AudioDisabled s"
  "m_UnexpectedTermination (snd (validate_forced_hardware env w s)) = m_UnexpectedTermination s"
  "m_InputHandlerLock (snd (validate_forced_hardware env w s)) = m_InputHandlerLock s"
  "audio_probes (snd (validate_forced_hardware env w s)) = audio_probes s"
  "actions (snd (validate_forced_hardware env w s)) = actions s"
  "m_StreamConfig (snd (validate_forced_hardware env w s)) = m_StreamConfig s"
  by (simp_all add: validate_forced_hardware_def Let_def)

lemma validate_forced_hardware_emitted:
  assumes "\<And>text. \<not> P (displayLaunchError text)"
  shows "filter P (emitted (snd (validate_forced_hardware env w s))) = filter P (emitted s)"
  using assms by (simp add: validate_forced_hardware_def Let_def)

subsection \<open>HDR\<close>

lemma initialize_video_callbacks_frame [simp]:
  "m_Preferences (initialize_video_callbacks env s) = m_Preferences s"
  "m_Computer (initialize_video_callbacks env s) = m_Computer s"
  "m_App (initialize_video_callbacks env s) = m_App s"
  "m_AudioDisabled (initialize_video_callbacks env s) = m_AudioDisabled s"
  "m_UnexpectedTermination (initialize_video_callbacks env s) = m_UnexpectedTermination s"
  "m_InputHandlerLock (initialize_video_callbacks env s) = m_InputHandlerLock s"
  "audio_probes (initialize_video_callbacks env s) = audio_probes s"
  "actions (initialize_video_callbacks env s) = actions s"
  "emitted (initialize_video_callbacks env s) = emitted s"
  "rand_pos (initialize_video_callbacks env s) = rand_pos s"
  "m_StreamConfig (initialize_video_callbacks env s) = m_StreamConfig s"
  by (simp_all add: initialize_video_callbacks_def Let_def)

lemma initialize_stream_config_frame [simp]:
  "m_Preferences (initialize_stream_config env s) = m_Preferences s"
  "m_Computer (initialize_stream_config env s) = m_Computer s"
  "m_App (initialize_stream_config env s) = m_App s"
  "m_VideoCallbacks_capabilities (initialize_stream_config env s) = m_VideoCallbacks_capabilities s"
  "m_AudioDisabled (initialize_stream_config env s) = m_AudioDisabled s"
  "m_UnexpectedTermination (initialize_stream_config env s) = m_UnexpectedTermination s"
  "m_InputHandlerLock (initialize_stream_config env s) = m_InputHandlerLock s"
  "audio_probes (initialize_stream_config env s) = audio_probes s"
  "actions (initialize_stream_config env s) = actions s"
  "emitted (initialize_stream_config env s) = emitted s"
  "cfg_width (m_StreamConfig (initialize_stream_config env s)) = pref_width (m_Preferences s)"
  "cfg_height (m_StreamConfig (initialize_stream_config env s)) = pref_height (m_Preferences s)"
  "cfg_fps (m_StreamConfig (initialize_stream_config env s)) = pref_fps (m_Preferences s)"
  by (simp_all add: initialize_stream_config_def Let_def)

lemma initialize_codec_frame [simp]:
  "m_Preferences (initialize_codec env w s) = m_Preferences s"
  "m_Computer (initialize_codec env w s) = m_Computer s"
  "m_App (initialize_codec env w s) = m_App s"
  "m_VideoCallbacks_capabilities (initialize_codec env w s) = m_VideoCallbacks_capabilities s"
  "m_AudioDisabled (initialize_codec env w s) = m_AudioDisabled s"
  "m_UnexpectedTermination (initialize_codec env w s) = m_UnexpectedTermination s"
  "m_InputHandlerLock (initialize_codec env w s) = m_InputHandlerLock s"
  "audio_probes (initialize_codec env w s) = audio_probes s"
  "actions (initialize_codec env w s) = actions s"
  "emitted (initialize_codec env w s) = emitted s"
  "cfg_width (m_StreamConfig (initialize_codec env w s)) = cfg_width (m_StreamConfig s)"
  "cfg_height (m_StreamConfig (initialize_codec env w s)) = cfg_height (m_StreamConfig s)"
  "cfg_fps (m_StreamConfig (initialize_codec env w s)) = cfg_fps (m_StreamConfig s)"
  "cfg_audioConfiguration (m_StreamConfig (initialize_codec env w s)) = cfg_audioConfiguration (m_StreamConfig s)"
  "cfg_enableHdr (m_StreamConfig (initialize_codec env w s)) =
     (pref_videoCodecConfig (m_Preferences s) = VCC_FORCE_HEVC_HDR)"
  by (simp_all add: initialize_codec_def Let_def split: VideoCodecConfig.splits)

lemma initialize_decoder_capabilities_frame [simp]:
  "m_Preferences (initialize_decoder_capabilities env w s) = m_Preferences s"
  "m_Computer (initialize_decoder_capabilities env w s) = m_Computer s"
  "m_App (initialize_decoder_capabilities env w s) = m_App s"
  "m_AudioDisabled (initialize_decoder_capabilities env w s) = m_AudioDisabled s"
  "m_UnexpectedTermination (initialize_decoder_capabilities env w s) = m_UnexpectedTermination s"
  "m_InputHandlerLock (initialize_decoder_capabilities env w s) = m_InputHandlerLock s"
  "audio_probes (initialize_decoder_capabilities env w s) = audio_probes s"
  "actions (initialize_decoder_capabilities env w s) = actions s"
  "emitted (initialize_decoder_capabilities env w s) = emitted s"
  "m_StreamConfig (initialize_decoder_capabilities env w s) = m_StreamConfig s"
  by (simp_all add: initialize_decoder_capabilities_def Let_def)

lemma initialize_reaches_validation:
  assumes "SDL_InitSubSystem_VIDEO env = 0" and "SDL_CreateWindow_hidden env"
  shows "initialize env s =
           validateLaunch env TestWindow
             (initialize_decoder_capabilities env TestWindow
               (initialize_codec env TestWindow
                 (initialize_stream_config env (initialize_video_callbacks env s))))"
  using assms by (simp add: initialize_def Let_def)

lemma hdr10_text_ends: "name @ '' doesn't support HDR10.'' = t \<Longrightarrow> take 2 (rev t) = ''.0''"
  by auto

lemma hdr10_text_distinct:
  "name @ '' doesn't support HDR10.'' \<noteq> ''Your host PC GPU doesn't support HDR streaming. A GeForce GTX 1000-series (Pascal) or later GPU is required for HDR streaming.''"
  "name @ '' doesn't support HDR10.'' \<noteq> ''This PC's GPU doesn't support HEVC Main10 decoding for HDR streaming.''"
  by (auto dest: hdr10_text_ends)

lemma not_hdr_warning [simp]:
  "\<not> is_hdr_warning app (displayLaunchWarning ''Your settings selection to force software decoding may cause poor streaming performance.'')"
  "\<not> is_hdr_warning app (displayLaunchWarning ''Using unsupported FPS options may cause stuttering or lag.'')"
  "\<not> is_hdr_warning app (displayLaunchWarning ''V-sync will be disabled when streaming at a higher frame rate than the display.'')"
  "\<not> is_hdr_warning app (displayLaunchWarning ''Using software decoding due to your selection to force HEVC without GPU support. This may cause poor streaming performance.'')"
  "\<not> is_hdr_warning app (displayLaunchWarning ''This PC's GPU doesn't support HEVC decoding.'')"
  "\<not> is_hdr_warning app (displayLaunchWarning ''Your host PC GPU doesn't support HEVC. A GeForce GTX 900-series (Maxwell) or later GPU is required for HEVC streaming.'')"
  "\<not> is_hdr_warning app (displayLaunchWarning ''GeForce Experience 3.0 or higher is required for 4K streaming.'')"
  "\<not> is_hdr_warning app (displayLaunchWarning ''5.1 surround sound is not supported by the current audio device.'')"
  "\<not> is_hdr_warning app (displayLaunchWarning ''Failed to open audio device. Audio will be unavailable during this session.'')"
  "\<not> is_hdr_warning app (displayLaunchWarning ''An attached gamepad has no mapping and won't be usable. Visit the Moonlight help to resolve this.'')"
  "\<not> is_hdr_warning app (displayLaunchError text)"
  by (auto simp add: is_hdr_warning_def dest: hdr10_text_ends)

lemma is_hdr_warning_simps [simp]:
  "is_hdr_warning app (displayLaunchWarning (app_name app @ '' doesn't support HDR10.''))"
  "is_hdr_warning app (displayLaunchWarning ''Your host PC GPU doesn't support HDR streaming. A GeForce GTX 1000-series (Pascal) or later GPU is required for HDR streaming.'')"
  "is_hdr_warning app (displayLaunchWarning ''This PC's GPU doesn't support HEVC Main10 decoding for HDR streaming.'')"
  by (simp_all add: is_hdr_warning_def)

lemma validate_hdr_enableHdr:
  "cfg_enableHdr (m_StreamConfig (validate_hdr env w s)) \<longleftrightarrow>
     cfg_enableHdr (m_StreamConfig s) \<and> hdrSupported (m_App s) \<and>
     (serverCodecModeSupport (m_Computer s) AND 0x200) \<noteq> 0 \<and>
     isHardwareDecodeAvailable env w (pref_videoDecoderSelection (m_Preferences s))
       VIDEO_FORMAT_H265_MAIN10 (cfg_width (m_StreamConfig s)) (cfg_height (m_StreamConfig s))
       (cfg_fps (m_StreamConfig s))"
  by (simp add: validate_hdr_def Let_def)

lemma validate_hdr_warnings:
  "filter (is_hdr_warning (m_App s)) (emitted (validate_hdr env w s)) =
     filter (is_hdr_warning (m_App s)) (emitted s) @
     (if \<not> cfg_enableHdr (m_StreamConfig s) then []
      else if \<not> hdrSupported (m_App s) then
        [displayLaunchWarning (app_name (m_App s) @ '' doesn't support HDR10.'')]
      else if (serverCodecModeSupport (m_Computer s) AND 0x200) = 0 then [displayLaunchWarning ''Your host PC GPU doesn't support HDR streaming. A GeForce GTX 1000-series (Pascal) or later GPU is required for HDR streaming.'']
      else if \<not> isHardwareDecodeAvailable env w (pref_videoDecoderSelection (m_Preferences s))
                  VIDEO_FORMAT_H265_MAIN10 (cfg_width (m_StreamConfig s))
                  (cfg_height (m_StreamConfig s)) (cfg_fps (m_StreamConfig s)) then [displayLaunchWarning ''This PC's GPU doesn't support HEVC Main10 decoding for HDR streaming.'']
      else [])"
  by (simp add: validate_hdr_def Let_def)

lemma validate_warnings_hdr:
  "filter (is_hdr_warning (m_App s)) (emitted (validate_warnings env w s)) =
     filter (is_hdr_warning (m_App s)) (emitted (validate_hdr env w (validate_hevc env w (validate_settings s))))"
proof -
  let ?P = "is_hdr_warning (m_App s)"
  let ?h = "validate_hdr env w (validate_hevc env w (validate_settings s))"
  have "filter ?P (emitted (validate_warnings env w s)) =
        filter ?P (emitted (validate_audio env (validate_4k ?h)))"
    unfolding validate_warnings_def by (rule validate_gamepads_emitted) simp
  also have "\<dots> = filter ?P (emitted (validate_4k ?h))"
    by (rule validate_audio_emitted) simp_all
  also have "\<dots> = filter ?P (emitted ?h)"
    by (rule validate_4k_emitted) simp
  finally show ?thesis .
qed

text \<open>
  C3. When initialization reaches validation (the video subsystem and the hidden test
  window are there), the stream configuration it leaves has HDR enabled if and only if
  the codec mode is \<open>VCC_FORCE_HEVC_HDR\<close>, the application advertises HDR, the codec mode
  support of the host has bit 0x200, and the hardware-decode probe for HEVC Main10
  succeeds at the width, height and frame rate of the preferences. Of the three HDR
  warnings none is emitted unless the codec mode forces HDR, and none when all criteria
  hold; otherwise exactly one is, that of the first criterion that fails, in the order
  application, host GPU, decoder probe. So when exactly one criterion fails, HDR is off
  and the one HDR warning is the warning of that criterion.
\<close>

theorem initialize_hdr:
  assumes "SDL_InitSubSystem_VIDEO env = 0" and "SDL_CreateWindow_hidden env"
  shows "(let s' = snd (initialize env s);
              prefs = m_Preferences s;
              forcing = (pref_videoCodecConfig prefs = VCC_FORCE_HEVC_HDR);
              app = hdrSupported (m_App s);
              gpu = ((serverCodecModeSupport (m_Computer s) AND 0x200) \<noteq> 0);
              probe = isHardwareDecodeAvailable env TestWindow (pref_videoDecoderSelection prefs)
                        VIDEO_FORMAT_H265_MAIN10 (pref_width prefs) (pref_height prefs) (pref_fps prefs)
          in (cfg_enableHdr (m_StreamConfig s') \<longleftrightarrow> forcing \<and> app \<and> gpu \<and> probe) \<and>
             filter (is_hdr_warning (m_App s)) (emitted s') =
               filter (is_hdr_warning (m_App s)) (emitted s) @
               (if \<not> forcing then []
                else if \<not> app then [displayLaunchWarning (app_name (m_App s) @ '' doesn't support HDR10.'')]
                else if \<not> gpu then [displayLaunchWarning ''Your host PC GPU doesn't support HDR streaming. A GeForce GTX 1000-series (Pascal) or later GPU is required for HDR streaming.'']
                else if \<not> probe then [displayLaunchWarning ''This PC's GPU doesn't support HEVC Main10 decoding for HDR streaming.'']
                else []))"
proof -
  let ?c = "initialize_decoder_capabilities env TestWindow
              (initialize_codec env TestWindow
                (initialize_stream_config env (initialize_video_callbacks env s)))"
  let ?P = "is_hdr_warning (m_App s)"
  have init: "initialize env s = validateLaunch env TestWindow ?c"
    using assms by (rule initialize_reaches_validation)
  have app: "m_App ?c = m_App s" by simp
  have hdr: "cfg_enableHdr (m_StreamConfig (snd (initialize env s))) =
             cfg_enableHdr (m_StreamConfig (validate_hdr env TestWindow (validate_hevc env TestWindow (validate_settings ?c))))"
    by (simp add: init validateLaunch_def validate_warnings_def)
  have "filter ?P (emitted (snd (initialize env s))) =
        filter ?P (emitted (validate_warnings env TestWindow ?c))"
    unfolding init validateLaunch_def by (rule validate_forced_hardware_emitted) simp
  also have "\<dots> = filter ?P (emitted (validate_hdr env TestWindow (validate_hevc env TestWindow (validate_settings ?c))))"
    using validate_warnings_hdr [of ?c env TestWindow] by (simp only: app)
  also have "\<dots> = filter ?P (emitted (validate_hevc env TestWindow (validate_settings ?c))) @
       (if \<not> cfg_enableHdr (m_StreamConfig ?c) then []
        else if \<not> hdrSupported (m_App s) then
          [displayLaunchWarning (app_name (m_App s) @ '' doesn't support HDR10.'')]
        else if (serverCodecModeSupport (m_Computer s) AND 0x200) = 0 then [displayLaunchWarning ''Your host PC GPU doesn't support HDR streaming. A GeForce GTX 1000-series (Pascal) or later GPU is required for HDR streaming.'']
        else if \<not> isHardwareDecodeAvailable env TestWindow (pref_videoDecoderSelection (m_Preferences s))
                  VIDEO_FORMAT_H265_MAIN10 (pref_width (m_Preferences s))
                  (pref_height (m_Preferences s)) (pref_fps (m_Preferences s)) then [displayLaunchWarning ''This PC's GPU doesn't support HEVC Main10 decoding for HDR streaming.'']
        else [])"
    using validate_hdr_warnings [of "validate_hevc env TestWindow (validate_settings ?c)" env TestWindow]
    by simp
  also have "filter ?P (emitted (validate_hevc env TestWindow (validate_settings ?c))) =
             filter ?P (emitted (validate_settings ?c))"
    by (rule validate_hevc_emitted) simp_all
  also have "filter ?P (emitted (validate_settings ?c)) = filter ?P (emitted ?c)"
    by (rule validate_settings_emitted) simp_all
  finally have warnings: "filter ?P (emitted (snd (initialize env s))) =
       filter ?P (emitted s) @
       (if \<not> cfg_enableHdr (m_StreamConfig ?c) then []
        else if \<not> hdrSupported (m_App s) then
          [displayLaunchWarning (app_name (m_App s) @ '' doesn't support HDR10.'')]
        else if (serverCodecModeSupport (m_Computer s) AND 0x200) = 0 then [displayLaunchWarning ''Your host PC GPU doesn't support HDR streaming. A GeForce GTX 1000-series (Pascal) or later GPU is required for HDR streaming.'']
        else if \<not> isHardwareDecodeAvailable env TestWindow (pref_videoDecoderSelection (m_Preferences s))
                  VIDEO_FORMAT_H265_MAIN10 (pref_width (m_Preferences s))
                  (pref_height (m_Preferences s)) (pref_fps (m_Preferences s)) then [displayLaunchWarning ''This PC's GPU doesn't support HEVC Main10 decoding for HDR streaming.'']
        else [])"
    by simp
  show ?thesis
    unfolding Let_def
    by (simp add: hdr validate_hdr_enableHdr warnings)
qed

theorem initialize_hdr_witness:
  "SDL_InitSubSystem_VIDEO demo_env = 0 \<and> SDL_CreateWindow_hidden demo_env \<and>
   pref_videoCodecConfig (m_Preferences demo_session) = VCC_FORCE_HEVC_HDR \<and>
   hdrSupported (m_App demo_session) \<and>
   (serverCodecModeSupport (m_Computer demo_session) AND 0x200) = 0 \<and>
   \<not> cfg_enableHdr (m_StreamConfig (snd (initialize demo_env demo_session))) \<and>
   filter (is_hdr_warning demo_app) (emitted (snd (initialize demo_env demo_session))) =
     [displayLaunchWarning ''Your host PC GPU doesn't support HDR streaming. A GeForce GTX 1000-series (Pascal) or later GPU is required for HDR streaming.'']"
  using initialize_hdr [of demo_env demo_session]
  by (simp add: demo_env_def demo_session_def Session_new_def demo_computer_def demo_app_def
        demo_prefs_def Let_def)

subsection \<open>The 4K gate\<close>

lemma validate_4k_effect:
  "validate_4k s =
     (if cfg_width (m_StreamConfig s) \<ge> 3840 \<and>
         (gfeVersion (m_Computer s) = [] \<or> startsWith (gfeVersion (m_Computer s)) ''2.'')
      then s\<lparr>emitted := emitted s @ [displayLaunchWarning ''GeForce Experience 3.0 or higher is required for 4K streaming.''],
             m_StreamConfig := (m_StreamConfig s)\<lparr>cfg_width := 1920, cfg_height := 1080\<rparr>\<rparr>
      else s)"
  by (simp add: validate_4k_def Let_def)

lemma hdr10_text_not_4k:
  "name @ '' doesn't support HDR10.'' \<noteq> ''GeForce Experience 3.0 or higher is required for 4K streaming.''"
  by (auto dest: hdr10_text_ends)

lemma validateLaunch_4k_others:
  fixes s :: Session
  defines "P \<equiv> (=) (displayLaunchWarning ''GeForce Experience 3.0 or higher is required for 4K streaming.'')"
  shows "filter P (emitted (snd (validateLaunch env w s))) =
         filter P (emitted (validate_4k (validate_hdr env w (validate_hevc env w (validate_settings s)))))"
    and "filter P (emitted (validate_hdr env w (validate_hevc env w (validate_settings s)))) =
         filter P (emitted s)"
proof -
  let ?h = "validate_hdr env w (validate_hevc env w (validate_settings s))"
  have "filter P (emitted (snd (validateLaunch env w s))) = filter P (emitted (validate_warnings env w s))"
    unfolding validateLaunch_def by (rule validate_forced_hardware_emitted) (simp add: P_def)
  also have "\<dots> = filter P (emitted (validate_audio env (validate_4k ?h)))"
    unfolding validate_warnings_def by (rule validate_gamepads_emitted) (simp add: P_def)
  also have "\<dots> = filter P (emitted (validate_4k ?h))"
    by (rule validate_audio_emitted) (simp_all add: P_def)
  finally show "filter P (emitted (snd (validateLaunch env w s))) = filter P (emitted (validate_4k ?h))" .
  have "filter P (emitted ?h) = filter P (emitted (validate_hevc env w (validate_settings s)))"
    by (rule validate_hdr_emitted) (simp_all add: P_def hdr10_text_not_4k [symmetric])
  also have "\<dots> = filter P (emitted (validate_settings s))"
    by (rule validate_hevc_emitted) (simp_all add: P_def)
  also have "\<dots> = filter P (emitted s)"
    by (rule validate_settings_emitted) (simp_all add: P_def)
  finally show "filter P (emitted ?h) = filter P (emitted s)" .
qed

text \<open>
  C5. For a session whose stream width is at least 3840 when validation starts: if the
  GFE version of the host is empty or starts with \<open>2.\<close>, validation leaves the resolution
  at 1920 by 1080 and has emitted the 4K warning once; otherwise it leaves width and
  height as they were and has not emitted the warning.
\<close>

theorem validateLaunch_4k_downgrade:
  assumes "cfg_width (m_StreamConfig s) \<ge> 3840"
  shows "(let s' = snd (validateLaunch env w s);
              legacy = (gfeVersion (m_Computer s) = [] \<or> startsWith (gfeVersion (m_Computer s)) ''2.'')
          in cfg_width (m_StreamConfig s') = (if legacy then 1920 else cfg_width (m_StreamConfig s)) \<and>
             cfg_height (m_StreamConfig s') = (if legacy then 1080 else cfg_height (m_StreamConfig s)) \<and>
             count_list (emitted s') (displayLaunchWarning ''GeForce Experience 3.0 or higher is required for 4K streaming.'') =
               count_list (emitted s) (displayLaunchWarning ''GeForce Experience 3.0 or higher is required for 4K streaming.'') + (if legacy then 1 else 0))"
proof -
  let ?h = "validate_hdr env w (validate_hevc env w (validate_settings s))"
  have size: "cfg_width (m_StreamConfig (snd (validateLaunch env w s))) = cfg_width (m_StreamConfig (validate_4k ?h))"
    "cfg_height (m_StreamConfig (snd (validateLaunch env w s))) = cfg_height (m_StreamConfig (validate_4k ?h))"
    by (simp_all add: validateLaunch_def validate_warnings_def)
  have h: "cfg_width (m_StreamConfig ?h) = cfg_width (m_StreamConfig s)"
    "cfg_height (m_StreamConfig ?h) = cfg_height (m_StreamConfig s)"
    "m_Computer ?h = m_Computer s"
    by simp_all
  show ?thesis
    using assms
    unfolding Let_def count_list_eq_length_filter size validateLaunch_4k_others
    by (simp add: validate_4k_effect h validateLaunch_4k_others(2) [simplified])
qed

theorem validateLaunch_4k_downgrade_witness:
  "(let s = demo_session\<lparr>m_StreamConfig := (m_StreamConfig demo_session)\<lparr>cfg_width := 3840, cfg_height := 2160\<rparr>\<rparr>;
        legacy = s\<lparr>m_Computer := demo_computer\<lparr>gfeVersion := ''2.11.4.0''\<rparr>\<rparr>;
        s' = snd (validateLaunch demo_env TestWindow s);
        legacy' = snd (validateLaunch demo_env TestWindow legacy)
    in 3840 \<le> cfg_width (m_StreamConfig s) \<and> 3840 \<le> cfg_width (m_StreamConfig legacy) \<and>
       cfg_width (m_StreamConfig legacy') = 1920 \<and> cfg_height (m_StreamConfig legacy') = 1080 \<and>
       count_list (emitted legacy') (displayLaunchWarning ''GeForce Experience 3.0 or higher is required for 4K streaming.'') = 1 \<and>
       cfg_width (m_StreamConfig s') = 3840 \<and> cfg_height (m_StreamConfig s') = 2160 \<and>
       count_list (emitted s') (displayLaunchWarning ''GeForce Experience 3.0 or higher is required for 4K streaming.'') = 0)"
proof -
  let ?s = "demo_session\<lparr>m_StreamConfig := (m_StreamConfig demo_session)\<lparr>cfg_width := 3840, cfg_height := 2160\<rparr>\<rparr>"
  let ?legacy = "?s\<lparr>m_Computer := demo_computer\<lparr>gfeVersion := ''2.11.4.0''\<rparr>\<rparr>"
  have wide: "3840 \<le> cfg_width (m_StreamConfig ?s)" "3840 \<le> cfg_width (m_StreamConfig ?legacy)"
    by simp_all
  show ?thesis
    using validateLaunch_4k_downgrade [OF wide(1), of demo_env TestWindow]
      validateLaunch_4k_downgrade [OF wide(2), of demo_env TestWindow]
    by (simp add: Let_def demo_session_def Session_new_def demo_computer_def startsWith_def)
qed

subsection \<open>The audio probe\<close>

lemma validate_audio_effect:
  "validate_audio env s =
     (let layout = cfg_audioConfiguration (m_StreamConfig s) in
      if testAudio env layout then
        s\<lparr>audio_probes := audio_probes s @ [layout], m_AudioDisabled := False\<rparr>
      else if layout = AUDIO_CONFIGURATION_51_SURROUND \<and> testAudio env AUDIO_CONFIGURATION_STEREO then
        s\<lparr>audio_probes := audio_probes s @ [layout, AUDIO_CONFIGURATION_STEREO],
          m_StreamConfig := (m_StreamConfig s)\<lparr>cfg_audioConfiguration := AUDIO_CONFIGURATION_STEREO\<rparr>,
          emitted := emitted s @ [displayLaunchWarning ''5.1 surround sound is not supported by the current audio device.''],
          m_AudioDisabled := False\<rparr>
      else
        s\<lparr>audio_probes := audio_probes s @
             (if layout = AUDIO_CONFIGURATION_51_SURROUND then [layout, AUDIO_CONFIGURATION_STEREO] else [layout]),
          m_AudioDisabled := True,
          emitted := emitted s @ [displayLaunchWarning ''Failed to open audio device. Audio will be unavailable during this session.'']\<rparr>)"
  by (simp add: validate_audio_def call_testAudio_def Let_def)

lemma hdr10_text_not_audio:
  "name @ '' doesn't support HDR10.'' \<noteq> ''5.1 surround sound is not supported by the current audio device.''"
  "name @ '' doesn't support HDR10.'' \<noteq> ''Failed to open audio device. Audio will be unavailable during this session.''"
  by (auto dest: hdr10_text_ends)

lemma validateLaunch_audio_others:
  fixes s :: Session
  assumes "P = (=) (displayLaunchWarning ''5.1 surround sound is not supported by the current audio device.'') \<or> P = (=) (displayLaunchWarning ''Failed to open audio device. Audio will be unavailable during this session.'')"
  shows "filter P (emitted (snd (validateLaunch env w s))) =
         filter P (emitted (validate_audio env (validate_4k (validate_hdr env w (validate_hevc env w (validate_settings s))))))"
    and "filter P (emitted (validate_4k (validate_hdr env w (validate_hevc env w (validate_settings s))))) =
         filter P (emitted s)"
proof -
  let ?h = "validate_4k (validate_hdr env w (validate_hevc env w (validate_settings s)))"
  have "filter P (emitted (snd (validateLaunch env w s))) = filter P (emitted (validate_warnings env w s))"
    unfolding validateLaunch_def by (rule validate_forced_hardware_emitted) (use assms in auto)
  also have "\<dots> = filter P (emitted (validate_audio env ?h))"
    unfolding validate_warnings_def by (rule validate_gamepads_emitted) (use assms in auto)
  finally show "filter P (emitted (snd (validateLaunch env w s))) = filter P (emitted (validate_audio env ?h))" .
  have "filter P (emitted ?h) = filter P (emitted (validate_hdr env w (validate_hevc env w (validate_settings s))))"
    by (rule validate_4k_emitted) (use assms in auto)
  also have "\<dots> = filter P (emitted (validate_hevc env w (validate_settings s)))"
    by (rule validate_hdr_emitted) (use assms hdr10_text_not_audio in auto)
  also have "\<dots> = filter P (emitted (validate_settings s))"
    by (rule validate_hevc_emitted) (use assms in auto)
  also have "\<dots> = filter P (emitted s)"
    by (rule validate_settings_emitted) (use assms in auto)
  finally show "filter P (emitted ?h) = filter P (emitted s)" .
qed

text \<open>
  C8. Validation, entered with the flag \<open>m_AudioDisabled\<close> clear as the constructor leaves
  it, probes the configured audio layout first. If that probe succeeds it is the only
  one, the layout and the flag are as before and no audio warning is emitted. If it
  fails and the layout is 5.1 surround, stereo is probed next: when that succeeds the
  layout becomes stereo, the flag stays clear and the surround warning is emitted once;
  when it fails too the layout stays, the flag is set and the failure warning is
  emitted once. If the first probe fails and the layout is stereo there is no second
  probe, the flag is set and the failure warning is emitted once.
\<close>

theorem validateLaunch_audio:
  assumes "\<not> m_AudioDisabled s"
  shows "(let s' = snd (validateLaunch env w s);
              layout = cfg_audioConfiguration (m_StreamConfig s);
              layout' = cfg_audioConfiguration (m_StreamConfig s');
              surround = int (count_list (emitted s') (displayLaunchWarning ''5.1 surround sound is not supported by the current audio device.'')) - int (count_list (emitted s) (displayLaunchWarning ''5.1 surround sound is not supported by the current audio device.''));
              failed = int (count_list (emitted s') (displayLaunchWarning ''Failed to open audio device. Audio will be unavailable during this session.'')) - int (count_list (emitted s) (displayLaunchWarning ''Failed to open audio device. Audio will be unavailable during this session.''))
          in if testAudio env layout then
               audio_probes s' = audio_probes s @ [layout] \<and> layout' = layout \<and> m_AudioDisabled s' = m_AudioDisabled s \<and>
               surround = 0 \<and> failed = 0
             else if layout = AUDIO_CONFIGURATION_51_SURROUND then
               audio_probes s' = audio_probes s @ [AUDIO_CONFIGURATION_51_SURROUND, AUDIO_CONFIGURATION_STEREO] \<and>
               (if testAudio env AUDIO_CONFIGURATION_STEREO
                then layout' = AUDIO_CONFIGURATION_STEREO \<and> \<not> m_AudioDisabled s' \<and> surround = 1 \<and> failed = 0
                else layout' = layout \<and> m_AudioDisabled s' \<and> surround = 0 \<and> failed = 1)
             else
               audio_probes s' = audio_probes s @ [layout] \<and> layout' = layout \<and> m_AudioDisabled s' \<and> surround = 0 \<and> failed = 1)"
proof -
  let ?h = "validate_4k (validate_hdr env w (validate_hevc env w (validate_settings s)))"
  let ?a = "validate_audio env ?h"
  have after: "cfg_audioConfiguration (m_StreamConfig (snd (validateLaunch env w s))) = cfg_audioConfiguration (m_StreamConfig ?a)"
    "m_AudioDisabled (snd (validateLaunch env w s)) = m_AudioDisabled ?a"
    "audio_probes (snd (validateLaunch env w s)) = audio_probes ?a"
    by (simp_all add: validateLaunch_def validate_warnings_def)
  have before: "cfg_audioConfiguration (m_StreamConfig ?h) = cfg_audioConfiguration (m_StreamConfig s)"
    "m_AudioDisabled ?h = m_AudioDisabled s" "audio_probes ?h = audio_probes s"
    by simp_all
  note counts = validateLaunch_audio_others [of "(=) (displayLaunchWarning ''5.1 surround sound is not supported by the current audio device.'')" env w s, simplified]
    validateLaunch_audio_others [of "(=) (displayLaunchWarning ''Failed to open audio device. Audio will be unavailable during this session.'')" env w s, simplified]
  show ?thesis
    using assms
    unfolding Let_def count_list_eq_length_filter after counts
    by (simp add: validate_audio_effect before counts Let_def)
qed

theorem validateLaunch_audio_witness:
  "(let s = demo_session\<lparr>m_StreamConfig :=
                (m_StreamConfig demo_session)\<lparr>cfg_audioConfiguration := AUDIO_CONFIGURATION_51_SURROUND\<rparr>\<rparr>;
        s' = snd (validateLaunch demo_env TestWindow s)
    in \<not> m_AudioDisabled s \<and>
       \<not> testAudio demo_env AUDIO_CONFIGURATION_51_SURROUND \<and>
       testAudio demo_env AUDIO_CONFIGURATION_STEREO \<and>
       audio_probes s' = [AUDIO_CONFIGURATION_51_SURROUND, AUDIO_CONFIGURATION_STEREO] \<and>
       cfg_audioConfiguration (m_StreamConfig s') = AUDIO_CONFIGURATION_STEREO \<and>
       \<not> m_AudioDisabled s' \<and>
       count_list (emitted s') (displayLaunchWarning ''5.1 surround sound is not supported by the current audio device.'') = 1 \<and>
       count_list (emitted s') (displayLaunchWarning ''Failed to open audio device. Audio will be unavailable during this session.'') = 0)"
proof -
  let ?s = "demo_session\<lparr>m_StreamConfig :=
                (m_StreamConfig demo_session)\<lparr>cfg_audioConfiguration := AUDIO_CONFIGURATION_51_SURROUND\<rparr>\<rparr>"
  have enabled: "\<not> m_AudioDisabled ?s"
    by (simp add: demo_session_def Session_new_def)
  show ?thesis
    using validateLaunch_audio [OF enabled, of demo_env TestWindow]
    by (simp add: Let_def demo_session_def Session_new_def demo_env_def)
qed

subsection \<open>Forced hardware decoding\<close>

lemma validate_warnings_frame [simp]:
  "m_Preferences (validate_warnings env w s) = m_Preferences s"
  "m_Computer (validate_warnings env w s) = m_Computer s"
  "m_App (validate_warnings env w s) = m_App s"
  "m_VideoCallbacks_capabilities (validate_warnings env w s) = m_VideoCallbacks_capabilities s"
  "m_UnexpectedTermination (validate_warnings env w s) = m_UnexpectedTermination s"
  "m_InputHandlerLock (validate_warnings env w s) = m_InputHandlerLock s"
  "actions (validate_warnings env w s) = actions s"
  "cfg_fps (m_StreamConfig (validate_warnings env w s)) = cfg_fps (m_StreamConfig s)"
  by (simp_all add: validate_warnings_def)

lemma validateLaunch_frame [simp]:
  "m_Preferences (snd (validateLaunch env w s)) = m_Preferences s"
  "m_Computer (snd (validateLaunch env w s)) = m_Computer s"
  "m_App (snd (validateLaunch env w s)) = m_App s"
  "m_VideoCallbacks_capabilities (snd (validateLaunch env w s)) = m_VideoCallbacks_capabilities s"
  "m_UnexpectedTermination (snd (validateLaunch env w s)) = m_UnexpectedTermination s"
  "m_InputHandlerLock (snd (validateLaunch env w s)) = m_InputHandlerLock s"
  "actions (snd (validateLaunch env w s)) = actions s"
  "m_StreamConfig (snd (validateLaunch env w s)) = m_StreamConfig (validate_warnings env w s)"
  by (simp_all add: validateLaunch_def)

lemma initialize_frame [simp]:
  "m_Preferences (snd (initialize env s)) = m_Preferences s"
  "m_Computer (snd (initialize env s)) = m_Computer s"
  "m_App (snd (initialize env s)) = m_App s"
  "m_UnexpectedTermination (snd (initialize env s)) = m_UnexpectedTermination s"
  "m_InputHandlerLock (snd (initialize env s)) = m_InputHandlerLock s"
  "actions (snd (initialize env s)) = actions s"
  by (simp_all add: initialize_def Let_def)

lemma validate_warnings_no_error:
  "filter is_launch_error (emitted (validate_warnings env w s)) = filter is_launch_error (emitted s)"
proof -
  let ?P = is_launch_error
  let ?s1 = "validate_settings s"
  let ?s2 = "validate_hevc env w ?s1"
  let ?s3 = "validate_hdr env w ?s2"
  let ?s4 = "validate_4k ?s3"
  let ?s5 = "validate_audio env ?s4"
  have "filter ?P (emitted (validate_warnings env w s)) = filter ?P (emitted ?s5)"
    unfolding validate_warnings_def by (rule validate_gamepads_emitted) simp
  also have "\<dots> = filter ?P (emitted ?s4)" by (rule validate_audio_emitted) simp_all
  also have "\<dots> = filter ?P (emitted ?s3)" by (rule validate_4k_emitted) simp
  also have "\<dots> = filter ?P (emitted ?s2)" by (rule validate_hdr_emitted) simp_all
  also have "\<dots> = filter ?P (emitted ?s1)" by (rule validate_hevc_emitted) simp_all
  also have "\<dots> = filter ?P (emitted s)" by (rule validate_settings_emitted) simp_all
  finally show ?thesis .
qed

lemma validate_forced_hardware_fatal:
  assumes "pref_videoDecoderSelection (m_Preferences s) = VDS_FORCE_HARDWARE"
    and "\<not> isHardwareDecodeAvailable env w VDS_FORCE_HARDWARE
            (if cfg_supportsHevc (m_StreamConfig s) then VIDEO_FORMAT_H265 else VIDEO_FORMAT_H264)
            (cfg_width (m_StreamConfig s)) (cfg_height (m_StreamConfig s)) (cfg_fps (m_StreamConfig s))"
  shows "validate_forced_hardware env w s =
           (False, s\<lparr>emitted := emitted s @
              [if pref_videoCodecConfig (m_Preferences s) = VCC_AUTO then displayLaunchError ''Your selection to force hardware decoding cannot be satisfied due to missing hardware decoding support on this PC's GPU.'' else displayLaunchError ''Your codec selection and force hardware decoding setting are not compatible. This PC's GPU lacks support for decoding your chosen codec.'']\<rparr>)"
  using assms by (simp add: validate_forced_hardware_def Let_def)

lemma exec_after_failed_initialize:
  assumes "\<not> fst (initialize env s)"
  shows "exec env inputs s = Finished (emit_signal sessionFinished (snd (initialize env s)))"
proof (cases "initialize env s")
  case (Pair ok s1)
  with assms show ?thesis
    by (simp add: exec_def exec_start_def exec_connect_def)
qed

text \<open>
  C4. With the decoder selection forced to hardware, and the hardware-decode probe
  failing at the codec format (HEVC if still supported, else H.264), width, height and
  frame rate of the final configuration, initialization fails: \<open>initialize\<close> returns false,
  and the one error signal of validation is the last signal emitted, after the warnings
  of the other checks. Its message is the one for an automatic codec choice under
  \<open>VCC_AUTO\<close>, and the one for an explicit choice otherwise. \<open>exec\<close> then emits
  \<open>sessionFinished\<close> and returns having performed no operation: the semaphore is not
  taken, the host is not called and the transport is not started.
\<close>

theorem forced_hardware_unavailable_is_fatal:
  assumes "SDL_InitSubSystem_VIDEO env = 0" and "SDL_CreateWindow_hidden env"
    and "pref_videoDecoderSelection (m_Preferences s) = VDS_FORCE_HARDWARE"
    and "\<not> isHardwareDecodeAvailable env TestWindow VDS_FORCE_HARDWARE
            (if cfg_supportsHevc (m_StreamConfig (snd (initialize env s)))
             then VIDEO_FORMAT_H265 else VIDEO_FORMAT_H264)
            (cfg_width (m_StreamConfig (snd (initialize env s))))
            (cfg_height (m_StreamConfig (snd (initialize env s))))
            (cfg_fps (m_StreamConfig (snd (initialize env s))))"
  shows "(let s' = snd (initialize env s);
              error = (if pref_videoCodecConfig (m_Preferences s) = VCC_AUTO then displayLaunchError ''Your selection to force hardware decoding cannot be satisfied due to missing hardware decoding support on this PC's GPU.'' else displayLaunchError ''Your codec selection and force hardware decoding setting are not compatible. This PC's GPU lacks support for decoding your chosen codec.'')
          in \<not> fst (initialize env s) \<and>
             filter is_launch_error (emitted s') = filter is_launch_error (emitted s) @ [error] \<and>
             last (emitted s') = error \<and>
             actions s' = actions s \<and>
             exec env inputs s = Finished (emit_signal sessionFinished s'))"
proof -
  let ?c = "initialize_decoder_capabilities env TestWindow
              (initialize_codec env TestWindow
                (initialize_stream_config env (initialize_video_callbacks env s)))"
  let ?v = "validate_warnings env TestWindow ?c"
  let ?error = "if pref_videoCodecConfig (m_Preferences s) = VCC_AUTO then displayLaunchError ''Your selection to force hardware decoding cannot be satisfied due to missing hardware decoding support on this PC's GPU.'' else displayLaunchError ''Your codec selection and force hardware decoding setting are not compatible. This PC's GPU lacks support for decoding your chosen codec.''"
  have init: "initialize env s = validate_forced_hardware env TestWindow ?v"
    using assms(1,2) by (simp add: initialize_reaches_validation validateLaunch_def)
  have cfg: "m_StreamConfig (snd (initialize env s)) = m_StreamConfig ?v"
    by (simp add: init)
  have fatal: "validate_forced_hardware env TestWindow ?v =
                 (False, ?v\<lparr>emitted := emitted ?v @ [?error]\<rparr>)"
    using validate_forced_hardware_fatal [of ?v env TestWindow] assms(3,4)
    by (simp add: cfg)
  have failed: "\<not> fst (initialize env s)"
    by (simp add: init fatal)
  have "filter is_launch_error (emitted ?v) = filter is_launch_error (emitted s)"
    by (simp add: validate_warnings_no_error)
  then have errors: "filter is_launch_error (emitted (snd (initialize env s))) =
                     filter is_launch_error (emitted s) @ [?error]"
    by (simp add: init fatal)
  have last: "last (emitted (snd (initialize env s))) = ?error"
    by (simp add: init fatal)
  show ?thesis
    unfolding Let_def
    using failed errors last exec_after_failed_initialize [OF failed] by simp
qed

theorem forced_hardware_unavailable_is_fatal_witness:
  "(let env = demo_env\<lparr>FFmpegVideoDecoder := Some demo_software_decoder\<rparr>;
        s = Session_new demo_computer demo_app
              (demo_prefs\<lparr>pref_videoDecoderSelection := VDS_FORCE_HARDWARE,
                           pref_videoCodecConfig := VCC_AUTO\<rparr>);
        s' = snd (initialize env s)
    in SDL_InitSubSystem_VIDEO env = 0 \<and> SDL_CreateWindow_hidden env \<and>
       pref_videoDecoderSelection (m_Preferences s) = VDS_FORCE_HARDWARE \<and>
       \<not> isHardwareDecodeAvailable env TestWindow VDS_FORCE_HARDWARE
           (if cfg_supportsHevc (m_StreamConfig s') then VIDEO_FORMAT_H265 else VIDEO_FORMAT_H264)
           (cfg_width (m_StreamConfig s')) (cfg_height (m_StreamConfig s')) (cfg_fps (m_StreamConfig s')) \<and>
       \<not> fst (initialize env s) \<and>
       filter is_launch_error (emitted s') = [displayLaunchError ''Your selection to force hardware decoding cannot be satisfied due to missing hardware decoding support on this PC's GPU.''] \<and>
       actions s' = [] \<and>
       exec env [Polled SDL_QUIT 0] s = Finished (emit_signal sessionFinished s'))"
proof -
  let ?env = "demo_env\<lparr>FFmpegVideoDecoder := Some demo_software_decoder\<rparr>"
  let ?s = "Session_new demo_computer demo_app
              (demo_prefs\<lparr>pref_videoDecoderSelection := VDS_FORCE_HARDWARE,
                           pref_videoCodecConfig := VCC_AUTO\<rparr>)"
  have env: "SDL_InitSubSystem_VIDEO ?env = 0" "SDL_CreateWindow_hidden ?env"
    by (simp_all add: demo_env_def)
  have vds: "pref_videoDecoderSelection (m_Preferences ?s) = VDS_FORCE_HARDWARE"
    by (simp add: Session_new_def)
  have unavailable: "\<not> isHardwareDecodeAvailable ?env TestWindow VDS_FORCE_HARDWARE format width height fps"
    for format width height fps
    by (simp add: isHardwareDecodeAvailable_def chooseDecoder_def try_decoder_def demo_env_def
          demo_software_decoder_def demo_decoder_def)
  show ?thesis
    using forced_hardware_unavailable_is_fatal [OF env vds unavailable, of "[Polled SDL_QUIT 0]"]
      env vds unavailable
    by (simp add: Let_def Session_new_def)
qed

subsection \<open>The capabilities probe\<close>

lemma chooseDecoder_None:
  "chooseDecoder env vds window videoFormat width height frameRate enableVsync enableFramePacing testOnly = None \<longleftrightarrow>
     (let params = \<lparr>dp_width = width, dp_height = height, dp_frameRate = frameRate,
                     dp_videoFormat = videoFormat, dp_window = window,
                     dp_enableVsync = enableVsync, dp_enableFramePacing = enableFramePacing,
                     dp_vds = vds\<rparr>
      in try_decoder (SLVideoDecoder env) testOnly params = None \<and>
         try_decoder (FFmpegVideoDecoder env) testOnly params = None)"
  by (simp add: chooseDecoder_def Let_def split: option.splits)

text \<open>
  C10. The decoder selection fails exactly when every candidate that is compiled in
  fails to initialize, and the capabilities probe returns 0 exactly when the selection
  fails or the chosen decoder reports an empty bitmask: from the value 0 the two cannot
  be told apart. When initialization reaches that point, it ORs the value of the probe
  (at HEVC if the codec switch left HEVC supported, else at H.264, and at the size and
  frame rate of the preferences) into the capabilities of the video callbacks, whatever
  the value is.
\<close>

theorem getDecoderCapabilities_total_failure:
  assumes "SDL_InitSubSystem_VIDEO env = 0" and "SDL_CreateWindow_hidden env"
  shows "(let params = \<lparr>dp_width = width, dp_height = height, dp_frameRate = frameRate,
                         dp_videoFormat = videoFormat, dp_window = window,
                         dp_enableVsync = True, dp_enableFramePacing = False, dp_vds = vds\<rparr>;
              probe = chooseDecoder env vds window videoFormat width height frameRate True False True;
              caps = getDecoderCapabilities env window vds videoFormat width height frameRate;
              configured = initialize_codec env TestWindow
                             (initialize_stream_config env (initialize_video_callbacks env s));
              prefs = m_Preferences s
          in (probe = None \<longleftrightarrow>
                try_decoder (SLVideoDecoder env) True params = None \<and>
                try_decoder (FFmpegVideoDecoder env) True params = None) \<and>
             (caps = 0 \<longleftrightarrow>
                (case probe of None \<Rightarrow> True | Some decoder \<Rightarrow> dec_getDecoderCapabilities decoder = 0)) \<and>
             m_VideoCallbacks_capabilities (snd (initialize env s)) =
               m_VideoCallbacks_capabilities configured OR
               getDecoderCapabilities env TestWindow (pref_videoDecoderSelection prefs)
                 (if cfg_supportsHevc (m_StreamConfig configured) then VIDEO_FORMAT_H265 else VIDEO_FORMAT_H264)
                 (pref_width prefs) (pref_height prefs) (pref_fps prefs))"
proof -
  let ?c = "initialize_codec env TestWindow
              (initialize_stream_config env (initialize_video_callbacks env s))"
  have none: "chooseDecoder env vds window videoFormat width height frameRate True False True = None \<longleftrightarrow>
      try_decoder (SLVideoDecoder env) True
        \<lparr>dp_width = width, dp_height = height, dp_frameRate = frameRate,
         dp_videoFormat = videoFormat, dp_window = window,
         dp_enableVsync = True, dp_enableFramePacing = False, dp_vds = vds\<rparr> = None \<and>
      try_decoder (FFmpegVideoDecoder env) True
        \<lparr>dp_width = width, dp_height = height, dp_frameRate = frameRate,
         dp_videoFormat = videoFormat, dp_window = window,
         dp_enableVsync = True, dp_enableFramePacing = False, dp_vds = vds\<rparr> = None"
    by (simp only: chooseDecoder_None Let_def)
  have zero: "getDecoderCapabilities env window vds videoFormat width height frameRate = 0 \<longleftrightarrow>
      (case chooseDecoder env vds window videoFormat width height frameRate True False True of
         None \<Rightarrow> True | Some decoder \<Rightarrow> dec_getDecoderCapabilities decoder = 0)"
    by (simp add: getDecoderCapabilities_def split: option.splits)
  have "m_VideoCallbacks_capabilities (snd (initialize env s)) =
        m_VideoCallbacks_capabilities (initialize_decoder_capabilities env TestWindow ?c)"
    using assms by (simp add: initialize_reaches_validation)
  also have "\<dots> = m_VideoCallbacks_capabilities ?c OR
      getDecoderCapabilities env TestWindow (pref_videoDecoderSelection (m_Preferences s))
        (if cfg_supportsHevc (m_StreamConfig ?c) then VIDEO_FORMAT_H265 else VIDEO_FORMAT_H264)
        (pref_width (m_Preferences s)) (pref_height (m_Preferences s)) (pref_fps (m_Preferences s))"
    by (simp add: initialize_decoder_capabilities_def Let_def)
  finally have ored: "m_VideoCallbacks_capabilities (snd (initialize env s)) =
      m_VideoCallbacks_capabilities ?c OR
      getDecoderCapabilities env TestWindow (pref_videoDecoderSelection (m_Preferences s))
        (if cfg_supportsHevc (m_StreamConfig ?c) then VIDEO_FORMAT_H265 else VIDEO_FORMAT_H264)
        (pref_width (m_Preferences s)) (pref_height (m_Preferences s)) (pref_fps (m_Preferences s))" .
  show ?thesis
    unfolding Let_def
    using none zero ored by (intro conjI)
qed

theorem getDecoderCapabilities_total_failure_witness:
  "(let env = demo_env\<lparr>FFmpegVideoDecoder := Some demo_failing_decoder\<rparr>
    in SDL_InitSubSystem_VIDEO env = 0 \<and> SDL_CreateWindow_hidden env \<and>
       chooseDecoder env VDS_AUTO TestWindow VIDEO_FORMAT_H264 1920 1080 60 True False True = None \<and>
       getDecoderCapabilities env TestWindow VDS_AUTO VIDEO_FORMAT_H264 1920 1080 60 = 0 \<and>
       getDecoderCapabilities demo_env TestWindow VDS_AUTO VIDEO_FORMAT_H264 1920 1080 60 = 0 \<and>
       chooseDecoder demo_env VDS_AUTO TestWindow VIDEO_FORMAT_H264 1920 1080 60 True False True = Some demo_decoder \<and>
       m_VideoCallbacks_capabilities (snd (initialize env demo_session)) = 67108864)"
proof -
  let ?env = "demo_env\<lparr>FFmpegVideoDecoder := Some demo_failing_decoder\<rparr>"
  have env: "SDL_InitSubSystem_VIDEO ?env = 0" "SDL_CreateWindow_hidden ?env"
    by (simp_all add: demo_env_def)
  have failing: "chooseDecoder ?env vds window format width height fps vsync pacing test = None"
    for vds window format width height fps vsync pacing test
    by (simp add: chooseDecoder_def try_decoder_def demo_env_def demo_failing_decoder_def)
  have working: "chooseDecoder demo_env VDS_AUTO TestWindow VIDEO_FORMAT_H264 1920 1080 60 True False True = Some demo_decoder"
    by (simp add: chooseDecoder_def try_decoder_def demo_env_def demo_ffmpeg_def)
  have slices: "m_VideoCallbacks_capabilities (initialize_video_callbacks ?env demo_session) = 67108864"
    by (simp add: initialize_video_callbacks_def demo_env_def)
  show ?thesis
    using getDecoderCapabilities_total_failure [OF env, of 1920 1080 60 VIDEO_FORMAT_H264 TestWindow VDS_AUTO demo_session]
      getDecoderCapabilities_total_failure [OF env, of 3840 2160 60 _ TestWindow VDS_AUTO demo_session]
      env failing working slices
    by (simp add: Let_def getDecoderCapabilities_def demo_decoder_def)
qed

subsection \<open>The paths of \<open>exec\<close>\<close>

lemma run_callback_frame [simp]:
  "m_UnexpectedTermination (run_callback env cb s) = m_UnexpectedTermination s"
  "m_Preferences (run_callback env cb s) = m_Preferences s"
  "actions (run_callback env cb s) = actions s"
  by (cases cb; simp add: clStageStarting_def clStageFailed_def drSetup_def)+

lemma fold_run_callback_frame [simp]:
  "m_UnexpectedTermination (fold (run_callback env) cbs s) = m_UnexpectedTermination s"
  "m_Preferences (fold (run_callback env) cbs s) = m_Preferences s"
  "actions (fold (run_callback env) cbs s) = actions s"
  by (induction cbs arbitrary: s) simp_all

lemma DispatchDeferredCleanup_frame:
  "m_UnexpectedTermination (outcome_session (DispatchDeferredCleanup s)) = m_UnexpectedTermination s"
  "m_Preferences (outcome_session (DispatchDeferredCleanup s)) = m_Preferences s"
  "actions (outcome_session (DispatchDeferredCleanup s)) =
     actions s @ (case DispatchDeferredCleanup s of Dispatched s' \<Rightarrow> [Start_CleanupTask] | _ \<Rightarrow> [])"
  "case DispatchDeferredCleanup s of Dispatched s' \<Rightarrow> True | Blocked s' \<Rightarrow> True | _ \<Rightarrow> False"
  by (simp_all add: DispatchDeferredCleanup_def SDL_AtomicLock_def SDL_AtomicUnlock_def
        delete_InputHandler_def null_InputHandler_def Let_def)

lemma recreate_decoder_frame:
  "case recreate_decoder env display s of
     Inl outcome \<Rightarrow>
       m_UnexpectedTermination (outcome_session outcome) = m_UnexpectedTermination s \<and>
       m_Preferences (outcome_session outcome) = m_Preferences s \<and>
       actions (outcome_session outcome) =
         actions s @ (case outcome of Dispatched s' \<Rightarrow> [Start_CleanupTask] | _ \<Rightarrow> []) \<and>
       (case outcome of Dispatched s' \<Rightarrow> True | Blocked s' \<Rightarrow> True | _ \<Rightarrow> False)
   | Inr s' \<Rightarrow>
       m_UnexpectedTermination s' = m_UnexpectedTermination s \<and>
       m_Preferences s' = m_Preferences s \<and> actions s' = actions s"
  by (simp add: recreate_decoder_def SDL_AtomicLock_def SDL_AtomicUnlock_def Let_def
        DispatchDeferredCleanup_frame split: option.splits)

lemma clConnectionTerminated_frame [simp]:
  "m_Preferences (clConnectionTerminated errorCode s) = m_Preferences s"
  "actions (clConnectionTerminated errorCode s) = actions s"
  "m_UnexpectedTermination s \<Longrightarrow> m_UnexpectedTermination (clConnectionTerminated errorCode s)"
  by (simp_all add: clConnectionTerminated_def)

lemma loop_ok_DispatchDeferredCleanup: "loop_ok s (DispatchDeferredCleanup s)"
  using DispatchDeferredCleanup_frame [of s]
  by (auto simp add: loop_ok_def split: exec_outcome.splits)

lemma loop_ok_trans:
  assumes "m_Preferences s' = m_Preferences s" and "actions s' = actions s"
    and "m_UnexpectedTermination s \<Longrightarrow> m_UnexpectedTermination s'"
    and "loop_ok s' outcome"
  shows "loop_ok s outcome"
  using assms by (auto simp add: loop_ok_def)

lemma loop_ok_recreate:
  assumes "\<And>s'. recreate_decoder env display s = Inr s' \<Longrightarrow> loop_ok s' (continue s')"
  shows "loop_ok s (case recreate_decoder env display s of Inl outcome \<Rightarrow> outcome | Inr s' \<Rightarrow> continue s')"
proof (cases "recreate_decoder env display s")
  case (Inl outcome)
  with recreate_decoder_frame [where env = env and display = display and s = s] show ?thesis
    by (auto simp add: loop_ok_def split: exec_outcome.splits)
next
  case (Inr s')
  have "loop_ok s (continue s')"
    using recreate_decoder_frame [where env = env and display = display and s = s] Inr
    by (intro loop_ok_trans [OF _ _ _ assms [OF Inr]]) simp_all
  with Inr show ?thesis by simp
qed

lemma event_loop_ok: "loop_ok s (event_loop env display inputs s)"
proof (induction env display inputs s rule: event_loop.induct)
  case (1 env currentDisplayIndex s)
  then show ?case by (simp add: loop_ok_def)
next
  case (2 env currentDisplayIndex errorCode rest s)
  have "loop_ok s (event_loop env currentDisplayIndex rest (clConnectionTerminated errorCode s))"
    by (rule loop_ok_trans [OF _ _ _ 2]) simp_all
  then show ?case by simp
next
  case (3 env currentDisplayIndex display rest s)
  then show ?case by (simp add: loop_ok_DispatchDeferredCleanup)
next
  case (4 env currentDisplayIndex display rest s)
  then show ?case by simp
next
  case (5 env currentDisplayIndex we display rest s)
  then show ?case by (auto intro!: loop_ok_recreate)
next
  case (6 env currentDisplayIndex display rest s)
  then show ?case by (auto intro!: loop_ok_recreate)
next
  case (7 env currentDisplayIndex display rest s)
  then show ?case by (auto intro!: loop_ok_recreate)
next
  case (8 env currentDisplayIndex display rest s)
  then show ?case by simp
qed

lemma exec_start_cases:
  "case exec_start env s0 of
     Inl (Finished s) \<Rightarrow>
       \<not> fst (initialize env s0) \<and> s = emit_signal sessionFinished (snd (initialize env s0))
   | Inl (Dispatched s) \<Rightarrow>
       fst (initialize env s0) \<and>
       m_UnexpectedTermination s = m_UnexpectedTermination s0 \<and>
       m_Preferences s = m_Preferences s0 \<and>
       (\<exists>call. (call = Call_resumeApp \<or> call = Call_launchApp) \<and>
          (actions s = actions s0 @ [Acquire_Semaphore, Set_ActiveSession, call, Start_CleanupTask] \<or>
           (\<exists>audio. actions s = actions s0 @
              [Acquire_Semaphore, Set_ActiveSession, call, Call_LiStartConnection audio, Start_CleanupTask])))
   | Inl (Streaming s) \<Rightarrow> False
   | Inl (Blocked s) \<Rightarrow> False
   | Inr s \<Rightarrow>
       fst (initialize env s0) \<and> LiStartConnection_result env = 0 \<and> SDL_CreateWindow_stream env \<and>
       \<not> m_UnexpectedTermination s \<and>
       m_Preferences s = m_Preferences s0 \<and>
       (\<exists>call audio. (call = Call_resumeApp \<or> call = Call_launchApp) \<and>
          actions s = actions s0 @
            [Acquire_Semaphore, Set_ActiveSession, call, Call_LiStartConnection audio])"
proof (cases "initialize env s0")
  case (Pair ok s1)
  have s1: "m_UnexpectedTermination s1 = m_UnexpectedTermination s0"
    "m_Preferences s1 = m_Preferences s0" "actions s1 = actions s0"
    using initialize_frame [of env s0] Pair by simp_all
  show ?thesis
  proof (cases ok)
    case False
    with Pair show ?thesis
      by (simp add: exec_start_def exec_connect_def)
  next
    case True
    with Pair s1 show ?thesis
      by (auto simp add: exec_start_def exec_connect_def Let_def abort_exec_def
            delete_InputHandler_def null_InputHandler_def
            split: http_result.splits)
  qed
qed

lemma DeferredSessionCleanupTask_run_frame [simp]:
  "m_UnexpectedTermination (DeferredSessionCleanupTask_run s) = m_UnexpectedTermination s"
  "m_Preferences (DeferredSessionCleanupTask_run s) = m_Preferences s"
  by (simp_all add: DeferredSessionCleanupTask_run_def Let_def)

lemma DeferredSessionCleanupTask_run_unexpected:
  assumes "m_UnexpectedTermination s"
  shows "DeferredSessionCleanupTask_run s =
           do_action Call_LiStopConnection (emit_signal sessionFinished s)"
  using assms by (simp add: DeferredSessionCleanupTask_run_def)

text \<open>
  C9. The constructor sets \<open>m_UnexpectedTermination\<close>. \<open>exec\<close> clears it at one place, when
  the transport has started and the stream window exists, just before the event loop;
  \<open>initialize\<close> and the cleanup task leave the flag as it is, and the event loop never
  clears a set flag. So whenever \<open>exec\<close> ends before the event loop the flag is still
  set, and the run of the cleanup task on that session emits \<open>sessionFinished\<close> and
  nothing else, stops the transport, and does not call \<open>quitApp\<close>. On these paths \<open>exec\<close>
  has started the cleanup task as its last operation, except when initialization failed:
  there \<open>exec\<close> has emitted \<open>sessionFinished\<close> itself and has performed no operation.
\<close>

theorem unexpected_termination_before_streaming:
  "(let s0 = Session_new computer app preferences in
    m_UnexpectedTermination s0 \<and>
    (case exec_start env s0 of
       Inr s \<Rightarrow>
         \<not> m_UnexpectedTermination s \<and> fst (initialize env s0) \<and>
         LiStartConnection_result env = 0 \<and> SDL_CreateWindow_stream env \<and>
         exec env inputs s0 = event_loop env (SDL_GetWindowDisplayIndex_first env) inputs s
     | Inl outcome \<Rightarrow>
         exec env inputs s0 = outcome \<and>
         m_UnexpectedTermination (outcome_session outcome) \<and>
         DeferredSessionCleanupTask_run (outcome_session outcome) =
           do_action Call_LiStopConnection (emit_signal sessionFinished (outcome_session outcome)) \<and>
         Call_quitApp \<notin> set (actions (DeferredSessionCleanupTask_run (outcome_session outcome))) \<and>
         (case outcome of
            Finished s \<Rightarrow>
              \<not> fst (initialize env s0) \<and>
              s = emit_signal sessionFinished (snd (initialize env s0)) \<and> actions s = []
          | Dispatched s \<Rightarrow>
              fst (initialize env s0) \<and> last (actions s) = Start_CleanupTask
          | Streaming s \<Rightarrow> False
          | Blocked s \<Rightarrow> False))) \<and>
   m_UnexpectedTermination (snd (initialize env s1)) = m_UnexpectedTermination s1 \<and>
   m_UnexpectedTermination (DeferredSessionCleanupTask_run s1) = m_UnexpectedTermination s1 \<and>
   m_UnexpectedTermination
     (outcome_session (event_loop env display inputs (s1\<lparr>m_UnexpectedTermination := True\<rparr>)))"
proof -
  let ?s0 = "Session_new computer app preferences"
  have new: "m_UnexpectedTermination ?s0" "actions ?s0 = []"
    by (simp_all add: Session_new_def)
  have task: "DeferredSessionCleanupTask_run s =
                do_action Call_LiStopConnection (emit_signal sessionFinished s) \<and>
              Call_quitApp \<notin> set (actions (DeferredSessionCleanupTask_run s))"
    if "m_UnexpectedTermination s" and "Call_quitApp \<notin> set (actions s)" for s
    using that by (simp add: DeferredSessionCleanupTask_run_unexpected)
  have start: "case exec_start env ?s0 of
       Inr s \<Rightarrow>
         \<not> m_UnexpectedTermination s \<and> fst (initialize env ?s0) \<and>
         LiStartConnection_result env = 0 \<and> SDL_CreateWindow_stream env \<and>
         exec env inputs ?s0 = event_loop env (SDL_GetWindowDisplayIndex_first env) inputs s
     | Inl outcome \<Rightarrow>
         exec env inputs ?s0 = outcome \<and>
         m_UnexpectedTermination (outcome_session outcome) \<and>
         DeferredSessionCleanupTask_run (outcome_session outcome) =
           do_action Call_LiStopConnection (emit_signal sessionFinished (outcome_session outcome)) \<and>
         Call_quitApp \<notin> set (actions (DeferredSessionCleanupTask_run (outcome_session outcome))) \<and>
         (case outcome of
            Finished s \<Rightarrow>
              \<not> fst (initialize env ?s0) \<and>
              s = emit_signal sessionFinished (snd (initialize env ?s0)) \<and> actions s = []
          | Dispatched s \<Rightarrow>
              fst (initialize env ?s0) \<and> last (actions s) = Start_CleanupTask
          | Streaming s \<Rightarrow> False
          | Blocked s \<Rightarrow> False)"
  proof (cases "exec_start env ?s0")
    case (Inr s)
    with exec_start_cases [of env ?s0] show ?thesis
      by (simp add: exec_def)
  next
    case (Inl outcome)
    show ?thesis
    proof (cases outcome)
      case (Finished s)
      with Inl exec_start_cases [of env ?s0] new
      have s: "\<not> fst (initialize env ?s0)"
        "s = emit_signal sessionFinished (snd (initialize env ?s0))"
        "m_UnexpectedTermination s" "actions s = []"
        by simp_all
      from s(3,4) have "Call_quitApp \<notin> set (actions s)" by simp
      from task [OF s(3) this] s Inl Finished show ?thesis
        by (simp add: exec_def)
    next
      case (Dispatched s)
      with Inl exec_start_cases [of env ?s0] new
      have s: "m_UnexpectedTermination s" "fst (initialize env ?s0)"
        and acts: "Call_quitApp \<notin> set (actions s)" "last (actions s) = Start_CleanupTask"
        by auto
      from task [OF s(1) acts(1)] s acts Inl Dispatched show ?thesis
        by (simp add: exec_def)
    next
      case (Streaming s)
      with Inl exec_start_cases [of env ?s0] show ?thesis by simp
    next
      case (Blocked s)
      with Inl exec_start_cases [of env ?s0] show ?thesis by simp
    qed
  qed
  have loop: "m_UnexpectedTermination
     (outcome_session (event_loop env display inputs (s1\<lparr>m_UnexpectedTermination := True\<rparr>)))"
    using event_loop_ok [of "s1\<lparr>m_UnexpectedTermination := True\<rparr>" env display inputs]
    by (simp add: loop_ok_def)
  show ?thesis
    unfolding Let_def using new(1) start loop by simp
qed

subsection \<open>Admission of sessions\<close>

lemma filter_update_count:
  "i < length xs \<Longrightarrow>
   length (filter P (xs[i := x])) + (if P (xs ! i) then 1 else 0) =
   length (filter P xs) + (if P x then 1 else 0)"
proof (induction xs arbitrary: i)
  case Nil
  then show ?case by simp
next
  case (Cons y ys)
  show ?case
  proof (cases i)
    case 0
    then show ?thesis by simp
  next
    case (Suc j)
    with Cons.prems have "j < length ys" by simp
    from Cons.IH [OF this] Suc show ?thesis by simp
  qed
qed

lemma filter_nth_positive: "i < length xs \<Longrightarrow> P (xs ! i) \<Longrightarrow> 0 < length (filter P xs)"
  by (metis filter_empty_conv length_greater_0_conv nth_mem)

lemma single_holder:
  assumes "length (filter P xs) \<le> 1" and "i < length xs" and "j < length xs"
    and "P (xs ! i)" and "P (xs ! j)"
  shows "i = j"
  using assms
proof (induction xs arbitrary: i j)
  case Nil
  then show ?case by simp
next
  case (Cons x xs)
  show ?case
  proof (cases i)
    case i0: 0
    show ?thesis
    proof (cases j)
      case 0
      with i0 show ?thesis by simp
    next
      case (Suc j')
      with Cons.prems i0 have "P x" "j' < length xs" "P (xs ! j')" by simp_all
      with Cons.prems(1) filter_nth_positive [of j' xs P] show ?thesis by simp
    qed
  next
    case i': (Suc i')
    show ?thesis
    proof (cases j)
      case 0
      with Cons.prems i' have "P x" "i' < length xs" "P (xs ! i')" by simp_all
      with Cons.prems(1) filter_nth_positive [of i' xs P] show ?thesis by simp
    next
      case (Suc j')
      from Cons.prems(1) have "length (filter P xs) \<le> 1" by (simp split: if_splits)
      with Cons.prems i' Suc Cons.IH [of i' j'] show ?thesis by simp
    qed
  qed
qed

lemma filter_mono_length:
  assumes "\<And>x. x \<in> set xs \<Longrightarrow> P x \<Longrightarrow> Q x"
  shows "length (filter P xs) \<le> length (filter Q xs)"
  using assms by (induction xs) auto

lemma step_enabled:
  assumes "i < length (threads p)" and "todo (threads p ! i) = a # rest"
    and "a = Acquire_Semaphore \<Longrightarrow> 0 < s_ActiveSessionSemaphore p"
  shows "step i p =
           (on_process i a p)\<lparr>threads := (threads p)[i := on_thread a ((threads p ! i)\<lparr>todo := rest\<rparr>)]\<rparr>"
  using assms by (auto simp add: step_def)

lemma step_idle:
  assumes "\<not> i < length (threads p) \<or> todo (threads p ! i) = [] \<or>
           (\<exists>rest. todo (threads p ! i) = Acquire_Semaphore # rest \<and> s_ActiveSessionSemaphore p = 0)"
  shows "step i p = p"
  using assms by (auto simp add: step_def split: list.splits)

lemma on_process_threads [simp]: "threads (on_process i a p) = threads p"
  by (cases a) simp_all

lemma thread_ok_step:
  assumes "thread_ok th" and "todo th = a # rest"
  shows "thread_ok (on_thread a (th\<lparr>todo := rest\<rparr>))"
  using assms by (cases a) (auto simp add: thread_ok_def)

lemma token_step:
  assumes "thread_ok th" and "todo th = a # rest"
    and "a = Acquire_Semaphore \<Longrightarrow> 0 < s_ActiveSessionSemaphore p"
  shows "s_ActiveSessionSemaphore (on_process i a p) +
           (if holds_token (on_thread a (th\<lparr>todo := rest\<rparr>)) then 1 else 0) =
         s_ActiveSessionSemaphore p + (if holds_token th then 1 else 0)"
  using assms by (cases a) (auto simp add: thread_ok_def)

lemma pointer_step:
  assumes "a \<noteq> Set_ActiveSession" and "a \<noteq> Clear_ActiveSession"
  shows "s_ActiveSession (on_process i a p) = s_ActiveSession p"
    and "is_active (on_thread a th) = is_active th"
  using assms by (cases a; simp)+

lemma step_preserves_admission:
  assumes inv: "admission_ok p"
  shows "admission_ok (step i p)"
proof (cases "i < length (threads p)")
  case False
  with inv show ?thesis by (simp add: step_idle)
next
  case i: True
  let ?th = "threads p ! i"
  show ?thesis
  proof (cases "todo ?th")
    case Nil
    with inv show ?thesis by (simp add: step_idle)
  next
    case (Cons a rest)
    show ?thesis
    proof (cases "a = Acquire_Semaphore \<and> s_ActiveSessionSemaphore p = 0")
      case True
      with Cons inv show ?thesis by (simp add: step_idle)
    next
      case False
      then have enabled: "a = Acquire_Semaphore \<Longrightarrow> 0 < s_ActiveSessionSemaphore p"
        by simp
      define th' where "th' = on_thread a (?th\<lparr>todo := rest\<rparr>)"
      define p' where "p' = (on_process i a p)\<lparr>threads := (threads p)[i := th']\<rparr>"
      have step: "step i p = p'"
        using step_enabled [OF i Cons enabled] by (simp add: th'_def p'_def)
      have threads': "threads p' = (threads p)[i := th']"
        and sem': "s_ActiveSessionSemaphore p' = s_ActiveSessionSemaphore (on_process i a p)"
        and ptr': "s_ActiveSession p' = s_ActiveSession (on_process i a p)"
        by (simp_all add: p'_def)
      from inv have sum: "s_ActiveSessionSemaphore p + length (filter holds_token (threads p)) = 1"
        and ok: "\<And>j. j < length (threads p) \<Longrightarrow> thread_ok (threads p ! j)"
        and active: "\<And>j. j < length (threads p) \<Longrightarrow>
                       is_active (threads p ! j) \<longleftrightarrow> s_ActiveSession p = Some j"
        and pointer: "case s_ActiveSession p of None \<Rightarrow> True | Some j \<Rightarrow> j < length (threads p)"
        by (simp_all add: admission_ok_def)
      have ok': "thread_ok th'"
        unfolding th'_def using ok [OF i] Cons by (rule thread_ok_step)
      \<comment> \<open>the tokens\<close>
      have count: "length (filter holds_token ((threads p)[i := th'])) + (if holds_token ?th then 1 else 0) =
                   length (filter holds_token (threads p)) + (if holds_token th' then 1 else 0)"
        using i by (rule filter_update_count)
      have token: "s_ActiveSessionSemaphore (on_process i a p) + (if holds_token th' then 1 else 0) =
                   s_ActiveSessionSemaphore p + (if holds_token ?th then (1::nat) else 0)"
        unfolding th'_def using ok [OF i] Cons enabled by (rule token_step)
      have sum': "s_ActiveSessionSemaphore p' + length (filter holds_token (threads p')) = 1"
        unfolding threads' sem' using count token sum by (simp split: if_splits)
      \<comment> \<open>the threads\<close>
      have all_ok': "thread_ok (threads p' ! j)" if "j < length (threads p')" for j
        using that ok ok' by (cases "j = i") (simp_all add: threads')
      \<comment> \<open>the pointer\<close>
      have unique: "j = i" if "j < length (threads p)" "holds_token (threads p ! j)" "holds_token ?th" for j
        using single_holder [of holds_token "threads p" j i] sum that i by simp
      have inactive: "\<not> is_active (threads p ! j)"
        if "j < length (threads p)" "j \<noteq> i" "holds_token ?th" for j
        using ok [OF that(1)] unique [OF that(1)] that by (auto simp add: thread_ok_def)
      from ok [OF i] Cons have script:
        "script_ok (holds_token ?th) (is_active ?th) (connected ?th) (a # rest)"
        by (simp add: thread_ok_def)
      have active': "is_active (threads p' ! j) \<longleftrightarrow> s_ActiveSession p' = Some j"
        if j: "j < length (threads p')" for j
      proof (cases "a = Set_ActiveSession \<or> a = Clear_ActiveSession")
        case False
        then have "s_ActiveSession p' = s_ActiveSession p" "is_active th' = is_active ?th"
          by (simp_all add: ptr' th'_def pointer_step)
        with j active [of j] show ?thesis
          by (cases "j = i") (simp_all add: threads')
      next
        case True
        then show ?thesis
        proof
          assume a: "a = Set_ActiveSession"
          with script have "holds_token ?th" by simp
          with inactive [of j] j a show ?thesis
            by (cases "j = i") (simp_all add: threads' ptr' th'_def)
        next
          assume a: "a = Clear_ActiveSession"
          with script have "is_active ?th" by simp
          with active [OF i] have "s_ActiveSession p = Some i" by simp
          with active [of j] j a show ?thesis
            by (cases "j = i") (simp_all add: threads' ptr' th'_def)
        qed
      qed
      have pointer': "case s_ActiveSession p' of None \<Rightarrow> True | Some j \<Rightarrow> j < length (threads p')"
        using pointer i by (cases a) (simp_all add: ptr' threads' split: option.splits)
      show ?thesis
        unfolding step admission_ok_def
        using sum' all_ok' active' pointer' by simp
    qed
  qed
qed

lemma run_schedule_preserves_admission:
  "admission_ok p \<Longrightarrow> admission_ok (run_schedule schedule p)"
  by (induction schedule arbitrary: p) (simp_all add: step_preserves_admission)

lemma start_process_admission:
  assumes "\<And>script. script \<in> set scripts \<Longrightarrow> script_ok False False False script"
  shows "admission_ok (start_process scripts)"
  using assms
  by (simp add: admission_ok_def start_process_def new_thread_def thread_ok_def filter_empty_conv)

lemma admission_ok_exclusive:
  assumes "admission_ok p"
  shows "s_ActiveSessionSemaphore p + length (filter holds_token (threads p)) = 1"
    and "length (filter is_active (threads p)) \<le> 1"
    and "length (filter connected (threads p)) \<le> 1"
    and "filter (\<lambda>th. (is_active th \<or> connected th) \<and> \<not> holds_token th) (threads p) = []"
    and "case s_ActiveSession p of
           None \<Rightarrow> filter is_active (threads p) = []
         | Some i \<Rightarrow> i < length (threads p) \<and> is_active (threads p ! i) \<and> holds_token (threads p ! i)"
proof -
  from assms have sum: "s_ActiveSessionSemaphore p + length (filter holds_token (threads p)) = 1"
    and ok: "\<And>j. j < length (threads p) \<Longrightarrow> thread_ok (threads p ! j)"
    and active: "\<And>j. j < length (threads p) \<Longrightarrow>
                   is_active (threads p ! j) \<longleftrightarrow> s_ActiveSession p = Some j"
    and pointer: "case s_ActiveSession p of None \<Rightarrow> True | Some j \<Rightarrow> j < length (threads p)"
    by (simp_all add: admission_ok_def)
  have holder: "holds_token th" if "th \<in> set (threads p)" "is_active th \<or> connected th" for th
    using that ok by (auto simp add: in_set_conv_nth thread_ok_def)
  show "s_ActiveSessionSemaphore p + length (filter holds_token (threads p)) = 1"
    by (rule sum)
  have "length (filter is_active (threads p)) \<le> length (filter holds_token (threads p))"
    by (rule filter_mono_length) (simp add: holder)
  with sum show "length (filter is_active (threads p)) \<le> 1" by simp
  have "length (filter connected (threads p)) \<le> length (filter holds_token (threads p))"
    by (rule filter_mono_length) (simp add: holder)
  with sum show "length (filter connected (threads p)) \<le> 1" by simp
  show "filter (\<lambda>th. (is_active th \<or> connected th) \<and> \<not> holds_token th) (threads p) = []"
    using holder by (auto simp add: filter_empty_conv)
  show "case s_ActiveSession p of
           None \<Rightarrow> filter is_active (threads p) = []
         | Some i \<Rightarrow> i < length (threads p) \<and> is_active (threads p ! i) \<and> holds_token (threads p ! i)"
  proof (cases "s_ActiveSession p")
    case None
    with active show ?thesis
      by (auto simp add: filter_empty_conv in_set_conv_nth)
  next
    case (Some i)
    with pointer have "i < length (threads p)" by simp
    with Some active [of i] holder [of "threads p ! i"] show ?thesis by simp
  qed
qed

lemma cleanup_task_actions:
  "actions (DeferredSessionCleanupTask_destructor (DeferredSessionCleanupTask_run s)) =
     actions s @ [Call_LiStopConnection] @
     (if \<not> m_UnexpectedTermination s \<and> pref_quitAppAfter (m_Preferences s) then [Call_quitApp] else []) @
     [Clear_ActiveSession, Release_Semaphore]"
  by (simp add: DeferredSessionCleanupTask_destructor_def DeferredSessionCleanupTask_run_def Let_def)

lemma exec_actions:
  "\<exists>call connect.
     (call = Call_resumeApp \<or> call = Call_launchApp) \<and>
     (connect = [] \<or> (\<exists>audio. connect = [Call_LiStartConnection audio])) \<and>
     (case exec env inputs s0 of
        Finished s \<Rightarrow> actions s = actions s0
      | Dispatched s \<Rightarrow>
          actions s = actions s0 @ [Acquire_Semaphore, Set_ActiveSession, call] @ connect @ [Start_CleanupTask]
      | Streaming s \<Rightarrow>
          actions s = actions s0 @ [Acquire_Semaphore, Set_ActiveSession, call] @ connect
      | Blocked s \<Rightarrow>
          actions s = actions s0 @ [Acquire_Semaphore, Set_ActiveSession, call] @ connect)"
proof (cases "exec_start env s0")
  case (Inl outcome)
  then have exec: "exec env inputs s0 = outcome"
    by (simp add: exec_def)
  show ?thesis
  proof (cases outcome)
    case (Finished s)
    with Inl exec_start_cases [of env s0] have "actions s = actions s0" by simp
    with exec Finished show ?thesis by auto
  next
    case (Dispatched s)
    with Inl exec_start_cases [of env s0] obtain call where
      call: "call = Call_resumeApp \<or> call = Call_launchApp"
      and acts: "actions s = actions s0 @ [Acquire_Semaphore, Set_ActiveSession, call, Start_CleanupTask] \<or>
           (\<exists>audio. actions s = actions s0 @
              [Acquire_Semaphore, Set_ActiveSession, call, Call_LiStartConnection audio, Start_CleanupTask])"
      by auto
    from acts show ?thesis
    proof
      assume "actions s = actions s0 @ [Acquire_Semaphore, Set_ActiveSession, call, Start_CleanupTask]"
      with call exec Dispatched show ?thesis
        by (intro exI [of _ call] exI [of _ "[]"]) simp
    next
      assume "\<exists>audio. actions s = actions s0 @
              [Acquire_Semaphore, Set_ActiveSession, call, Call_LiStartConnection audio, Start_CleanupTask]"
      then obtain audio where "actions s = actions s0 @
              [Acquire_Semaphore, Set_ActiveSession, call, Call_LiStartConnection audio, Start_CleanupTask]" ..
      with call exec Dispatched show ?thesis
        by (intro exI [of _ call] exI [of _ "[Call_LiStartConnection audio]"]) simp
    qed
  next
    case (Streaming s)
    with Inl exec_start_cases [of env s0] show ?thesis by simp
  next
    case (Blocked s)
    with Inl exec_start_cases [of env s0] show ?thesis by simp
  qed
next
  case (Inr s1)
  then have exec: "exec env inputs s0 = event_loop env (SDL_GetWindowDisplayIndex_first env) inputs s1"
    by (simp add: exec_def)
  from Inr exec_start_cases [of env s0] obtain call audio where
    call: "call = Call_resumeApp \<or> call = Call_launchApp"
    and acts: "actions s1 = actions s0 @
            [Acquire_Semaphore, Set_ActiveSession, call, Call_LiStartConnection audio]"
    by auto
  from event_loop_ok [of s1 env "SDL_GetWindowDisplayIndex_first env" inputs]
  have "case exec env inputs s0 of
        Finished s \<Rightarrow> False
      | Dispatched s \<Rightarrow> actions s = actions s1 @ [Start_CleanupTask]
      | Streaming s \<Rightarrow> actions s = actions s1
      | Blocked s \<Rightarrow> actions s = actions s1"
    unfolding exec by (simp add: loop_ok_def split: exec_outcome.splits)
  with call acts show ?thesis
    by (intro exI [of _ call] exI [of _ "[Call_LiStartConnection audio]"])
       (simp split: exec_outcome.splits)
qed

lemma run_session_actions:
  "\<exists>call connect quit.
     (call = Call_resumeApp \<or> call = Call_launchApp) \<and>
     (connect = [] \<or> (\<exists>audio. connect = [Call_LiStartConnection audio])) \<and>
     (quit = [] \<or> quit = [Call_quitApp]) \<and>
     (case exec env inputs s0 of
        Finished s \<Rightarrow> actions (run_session env inputs s0) = actions s0
      | Dispatched s \<Rightarrow>
          actions (run_session env inputs s0) =
            actions s0 @ [Acquire_Semaphore, Set_ActiveSession, call] @ connect @
            [Start_CleanupTask, Call_LiStopConnection] @ quit @
            [Clear_ActiveSession, Release_Semaphore]
      | Streaming s \<Rightarrow>
          actions (run_session env inputs s0) =
            actions s0 @ [Acquire_Semaphore, Set_ActiveSession, call] @ connect
      | Blocked s \<Rightarrow>
          actions (run_session env inputs s0) =
            actions s0 @ [Acquire_Semaphore, Set_ActiveSession, call] @ connect)"
proof -
  from exec_actions [where env = env and inputs = inputs and ?s0.0 = s0] obtain call connect where
    call: "call = Call_resumeApp \<or> call = Call_launchApp"
    and connect: "connect = [] \<or> (\<exists>audio. connect = [Call_LiStartConnection audio])"
    and acts: "case exec env inputs s0 of
        Finished s \<Rightarrow> actions s = actions s0
      | Dispatched s \<Rightarrow>
          actions s = actions s0 @ [Acquire_Semaphore, Set_ActiveSession, call] @ connect @ [Start_CleanupTask]
      | Streaming s \<Rightarrow>
          actions s = actions s0 @ [Acquire_Semaphore, Set_ActiveSession, call] @ connect
      | Blocked s \<Rightarrow>
          actions s = actions s0 @ [Acquire_Semaphore, Set_ActiveSession, call] @ connect"
    by blast
  define quit where "quit = (case exec env inputs s0 of
      Dispatched s \<Rightarrow> (if \<not> m_UnexpectedTermination s \<and> pref_quitAppAfter (m_Preferences s)
                        then [Call_quitApp] else [])
    | _ \<Rightarrow> [])"
  have quit: "quit = [] \<or> quit = [Call_quitApp]"
    by (simp add: quit_def split: exec_outcome.splits)
  from acts have "case exec env inputs s0 of
        Finished s \<Rightarrow> actions (run_session env inputs s0) = actions s0
      | Dispatched s \<Rightarrow>
          actions (run_session env inputs s0) =
            actions s0 @ [Acquire_Semaphore, Set_ActiveSession, call] @ connect @
            [Start_CleanupTask, Call_LiStopConnection] @ quit @
            [Clear_ActiveSession, Release_Semaphore]
      | Streaming s \<Rightarrow>
          actions (run_session env inputs s0) =
            actions s0 @ [Acquire_Semaphore, Set_ActiveSession, call] @ connect
      | Blocked s \<Rightarrow>
          actions (run_session env inputs s0) =
            actions s0 @ [Acquire_Semaphore, Set_ActiveSession, call] @ connect"
    by (simp add: run_session_def cleanup_task_actions quit_def split: exec_outcome.splits)
  with call connect quit show ?thesis by blast
qed

lemma session_script_ok:
  "script_ok False False False (session_script env inputs computer app preferences)"
proof -
  let ?s0 = "Session_new computer app preferences"
  have new: "actions ?s0 = []" by (simp add: Session_new_def)
  from run_session_actions [where env = env and inputs = inputs and ?s0.0 = ?s0] obtain call connect quit where
    call: "call = Call_resumeApp \<or> call = Call_launchApp"
    and connect: "connect = [] \<or> (\<exists>audio. connect = [Call_LiStartConnection audio])"
    and quit: "quit = [] \<or> quit = [Call_quitApp]"
    and acts: "case exec env inputs ?s0 of
        Finished s \<Rightarrow> actions (run_session env inputs ?s0) = actions ?s0
      | Dispatched s \<Rightarrow>
          actions (run_session env inputs ?s0) =
            actions ?s0 @ [Acquire_Semaphore, Set_ActiveSession, call] @ connect @
            [Start_CleanupTask, Call_LiStopConnection] @ quit @
            [Clear_ActiveSession, Release_Semaphore]
      | Streaming s \<Rightarrow>
          actions (run_session env inputs ?s0) =
            actions ?s0 @ [Acquire_Semaphore, Set_ActiveSession, call] @ connect
      | Blocked s \<Rightarrow>
          actions (run_session env inputs ?s0) =
            actions ?s0 @ [Acquire_Semaphore, Set_ActiveSession, call] @ connect"
    by blast
  from call connect quit acts show ?thesis
    unfolding session_script_def new
    by (cases "exec env inputs ?s0") auto
qed

lemma sessions_process_admission: "admission_ok (sessions_process sessions destructors)"
  unfolding sessions_process_def
proof (rule start_process_admission)
  fix script
  assume "script \<in> set (map script_of sessions @ replicate destructors destructor_script)"
  then consider input where "script = script_of input" | "script = destructor_script"
    by auto
  then show "script_ok False False False script"
  proof cases
    case 1
    then show ?thesis
      by (cases input) (simp add: session_script_ok)
  next
    case 2
    then show ?thesis by (simp add: destructor_script_def)
  qed
qed

lemma session_script_cases:
  "case exec env inputs (Session_new computer app preferences) of
     Finished s \<Rightarrow>
       \<not> fst (initialize env (Session_new computer app preferences)) \<and>
       session_script env inputs computer app preferences = []
   | Dispatched s \<Rightarrow>
       fst (initialize env (Session_new computer app preferences)) \<and>
       filter is_admission (session_script env inputs computer app preferences) =
         [Acquire_Semaphore, Set_ActiveSession, Start_CleanupTask, Clear_ActiveSession, Release_Semaphore] \<and>
       filter is_admission (actions s) = [Acquire_Semaphore, Set_ActiveSession, Start_CleanupTask] \<and>
       session_script env inputs computer app preferences =
         actions (DeferredSessionCleanupTask_run s) @ [Clear_ActiveSession, Release_Semaphore] \<and>
       filter is_admission (actions (DeferredSessionCleanupTask_run s)) = filter is_admission (actions s)
   | Streaming s \<Rightarrow>
       fst (initialize env (Session_new computer app preferences)) \<and>
       filter is_admission (session_script env inputs computer app preferences) =
         [Acquire_Semaphore, Set_ActiveSession]
   | Blocked s \<Rightarrow>
       fst (initialize env (Session_new computer app preferences)) \<and>
       filter is_admission (session_script env inputs computer app preferences) =
         [Acquire_Semaphore, Set_ActiveSession]"
proof -
  let ?s0 = "Session_new computer app preferences"
  have new: "actions ?s0 = []" by (simp add: Session_new_def)
  from exec_actions [where env = env and inputs = inputs and ?s0.0 = ?s0] obtain call connect where
    call: "call = Call_resumeApp \<or> call = Call_launchApp"
    and connect: "connect = [] \<or> (\<exists>audio. connect = [Call_LiStartConnection audio])"
    and acts: "case exec env inputs ?s0 of
        Finished s \<Rightarrow> actions s = actions ?s0
      | Dispatched s \<Rightarrow>
          actions s = actions ?s0 @ [Acquire_Semaphore, Set_ActiveSession, call] @ connect @ [Start_CleanupTask]
      | Streaming s \<Rightarrow>
          actions s = actions ?s0 @ [Acquire_Semaphore, Set_ActiveSession, call] @ connect
      | Blocked s \<Rightarrow>
          actions s = actions ?s0 @ [Acquire_Semaphore, Set_ActiveSession, call] @ connect"
    by blast
  have init: "case exec env inputs ?s0 of
        Finished s \<Rightarrow> \<not> fst (initialize env ?s0)
      | _ \<Rightarrow> fst (initialize env ?s0)"
  proof (cases "exec_start env ?s0")
    case (Inl outcome)
    with exec_start_cases [of env ?s0] show ?thesis
      by (cases outcome) (simp_all add: exec_def)
  next
    case (Inr s1)
    with exec_start_cases [of env ?s0]
      event_loop_ok [of s1 env "SDL_GetWindowDisplayIndex_first env" inputs]
    show ?thesis
      by (simp add: exec_def loop_ok_def split: exec_outcome.splits)
  qed
  from call connect acts init show ?thesis
    unfolding session_script_def new
    by (cases "exec env inputs ?s0")
       (auto simp add: run_session_def DeferredSessionCleanupTask_destructor_def
          DeferredSessionCleanupTask_run_def Let_def)
qed

text \<open>
  C2, amended. For any sessions and any number of destructors running side by side, under
  any schedule: the tokens left in the semaphore and the threads holding one always add
  up to one; at most one session is the active session and at most one has a
  connection; whoever is active or connected holds the token; and \<open>s_ActiveSession\<close>
  points to the active session, or is null when there is none.
  A session whose initialization succeeds acquires the semaphore and then makes itself
  the active session. When \<open>exec\<close> has returned, it has started exactly one cleanup task
  and has not released the semaphore; the run of the task neither acquires nor
  releases; the operations of the session end with the clearing of \<open>s_ActiveSession\<close> and
  the one release, both by the destructor of the cleanup task. While \<open>exec\<close> has not
  returned, the session holds the token it acquired.
  A session whose initialization fails performs no operation at all: it does not acquire
  the semaphore, starts no cleanup task and releases nothing.
  \<open>~Session\<close> acquires the semaphore once more and releases it.
\<close>

theorem admission_of_sessions:
  "(let p = run_schedule schedule (sessions_process sessions destructors) in
      s_ActiveSessionSemaphore p + length (filter holds_token (threads p)) = 1 \<and>
      length (filter is_active (threads p)) \<le> 1 \<and>
      length (filter connected (threads p)) \<le> 1 \<and>
      filter (\<lambda>th. (is_active th \<or> connected th) \<and> \<not> holds_token th) (threads p) = [] \<and>
      (case s_ActiveSession p of
         None \<Rightarrow> filter is_active (threads p) = []
       | Some i \<Rightarrow> i < length (threads p) \<and> is_active (threads p ! i) \<and> holds_token (threads p ! i))) \<and>
   (case exec env inputs (Session_new computer app preferences) of
      Finished s \<Rightarrow>
        \<not> fst (initialize env (Session_new computer app preferences)) \<and>
        session_script env inputs computer app preferences = []
    | Dispatched s \<Rightarrow>
        fst (initialize env (Session_new computer app preferences)) \<and>
        filter is_admission (session_script env inputs computer app preferences) =
          [Acquire_Semaphore, Set_ActiveSession, Start_CleanupTask, Clear_ActiveSession, Release_Semaphore] \<and>
        filter is_admission (actions s) = [Acquire_Semaphore, Set_ActiveSession, Start_CleanupTask] \<and>
        session_script env inputs computer app preferences =
          actions (DeferredSessionCleanupTask_run s) @ [Clear_ActiveSession, Release_Semaphore] \<and>
        filter is_admission (actions (DeferredSessionCleanupTask_run s)) = filter is_admission (actions s)
    | Streaming s \<Rightarrow>
        fst (initialize env (Session_new computer app preferences)) \<and>
        filter is_admission (session_script env inputs computer app preferences) =
          [Acquire_Semaphore, Set_ActiveSession]
    | Blocked s \<Rightarrow>
        fst (initialize env (Session_new computer app preferences)) \<and>
        filter is_admission (session_script env inputs computer app preferences) =
          [Acquire_Semaphore, Set_ActiveSession]) \<and>
   actions (DeferredSessionCleanupTask_destructor s1) =
     actions s1 @ [Clear_ActiveSession, Release_Semaphore] \<and>
   actions (Session_destructor s1) = actions s1 @ destructor_script"
proof -
  have "admission_ok (run_schedule schedule (sessions_process sessions destructors))"
    by (intro run_schedule_preserves_admission sessions_process_admission)
  from admission_ok_exclusive [OF this]
    session_script_cases [where env = env and inputs = inputs and computer = computer
      and app = app and preferences = preferences]
  show ?thesis
    unfolding Let_def
    by (simp add: DeferredSessionCleanupTask_destructor_def Session_destructor_def destructor_script_def)
qed

text \<open>
  The claim as first stated has the semaphore released exactly once per session on every
  failure path. On the path where the video subsystem cannot be initialized, \<open>exec\<close>
  returns without a cleanup task, and the session never releases the semaphore.
\<close>

theorem release_on_every_path_counterexample:
  "\<not> fst (initialize (demo_env\<lparr>SDL_InitSubSystem_VIDEO := - 1\<rparr>) demo_session) \<and>
   exec (demo_env\<lparr>SDL_InitSubSystem_VIDEO := - 1\<rparr>) [Polled SDL_QUIT 0] demo_session =
     Finished (emit_signal sessionFinished demo_session) \<and>
   session_script (demo_env\<lparr>SDL_InitSubSystem_VIDEO := - 1\<rparr>) [Polled SDL_QUIT 0]
     demo_computer demo_app demo_prefs = [] \<and>
   count_list (session_script (demo_env\<lparr>SDL_InitSubSystem_VIDEO := - 1\<rparr>) [Polled SDL_QUIT 0]
     demo_computer demo_app demo_prefs) Release_Semaphore \<noteq> 1"
proof -
  let ?env = "demo_env\<lparr>SDL_InitSubSystem_VIDEO := - 1\<rparr>"
  have init: "initialize ?env s = (False, s)" for s
    by (simp add: initialize_def)
  have exec: "exec ?env inputs s = Finished (emit_signal sessionFinished s)" for inputs s
    by (simp add: exec_def exec_start_def exec_connect_def init)
  show ?thesis
    by (simp add: init exec session_script_def run_session_def demo_session_def [symmetric])
       (simp add: demo_session_def Session_new_def)
qed

subsection \<open>Rumble and the destruction of the input handler\<close>

lemma run_callback_handler [simp]:
  "m_InputHandler (run_callback env cb s) = m_InputHandler s"
  "m_InputHandlerLock (run_callback env cb s) = m_InputHandlerLock s"
  by (cases cb; simp add: clStageStarting_def clStageFailed_def drSetup_def)+

lemma fold_run_callback_handler [simp]:
  "m_InputHandler (fold (run_callback env) cbs s) = m_InputHandler s"
  "m_InputHandlerLock (fold (run_callback env) cbs s) = m_InputHandlerLock s"
  by (induction cbs arbitrary: s) simp_all

lemma exec_connect_handler:
  assumes "exec_connect env s0 = Inr s"
  shows "m_InputHandler s = Some \<lparr>ih_deleted = False, ih_rumbles = []\<rparr>"
    and "m_InputHandlerLock s = m_InputHandlerLock s0"
proof -
  obtain ok s1 where init: "initialize env s0 = (ok, s1)"
    by (cases "initialize env s0")
  then have lock: "m_InputHandlerLock s1 = m_InputHandlerLock s0"
    using initialize_frame [of env s0] by simp
  from assms init lock
  show "m_InputHandler s = Some \<lparr>ih_deleted = False, ih_rumbles = []\<rparr>"
    and "m_InputHandlerLock s = m_InputHandlerLock s0"
    by (auto simp add: exec_connect_def Let_def abort_exec_def
          split: bool.splits http_result.splits if_splits)
qed

lemma clRumble_cases:
  "clRumble controllerNumber lowFreqMotor highFreqMotor s =
     (if m_InputHandlerLock s \<noteq> 0 then Spins
      else case m_InputHandler s of
             None \<Rightarrow> Returns s
           | Some handler \<Rightarrow>
               if ih_deleted handler then Calls_deleted_handler
               else Returns (s\<lparr>m_InputHandler := Some (handler\<lparr>ih_rumbles := ih_rumbles handler @
                                    [(controllerNumber, lowFreqMotor, highFreqMotor)]\<rparr>)\<rparr>))"
  by (cases "m_InputHandler s")
     (simp_all add: clRumble_def SDL_AtomicLock_def SDL_AtomicUnlock_def Let_def)

lemma rumble_during_locked_teardown:
  "clRumble controllerNumber lowFreqMotor highFreqMotor
     (delete_InputHandler (s\<lparr>m_InputHandlerLock := 1\<rparr>)) = Spins"
  by (simp add: clRumble_cases delete_InputHandler_def)

lemma rumble_after_teardown:
  assumes "m_InputHandlerLock s = 0"
  shows "clRumble controllerNumber lowFreqMotor highFreqMotor
           (null_InputHandler (delete_InputHandler s)) =
         Returns (null_InputHandler (delete_InputHandler s))"
  using assms by (simp add: clRumble_cases delete_InputHandler_def null_InputHandler_def)

lemma rumble_during_unlocked_teardown:
  assumes "exec_connect env s0 = Inr s" and "m_InputHandlerLock s0 = 0"
  shows "clRumble controllerNumber lowFreqMotor highFreqMotor (delete_InputHandler s) =
           Calls_deleted_handler"
  using exec_connect_handler [OF assms(1)] assms(2)
  by (simp add: clRumble_cases delete_InputHandler_def)

lemma initialize_succeeds:
  assumes "SDL_InitSubSystem_VIDEO env = 0" and "SDL_CreateWindow_hidden env"
    and "pref_videoDecoderSelection (m_Preferences s) \<noteq> VDS_FORCE_HARDWARE"
  shows "fst (initialize env s)"
  using assms
  by (simp add: initialize_reaches_validation validateLaunch_def validate_forced_hardware_def Let_def)

text \<open>
  C6. The run where the transport has started and the stream window cannot be created:
  \<open>exec\<close> deletes the input handler and then clears the pointer (lines 971 and 972),
  without taking \<open>m_InputHandlerLock\<close>. Between the two statements the connection is up
  (\<open>LiStartConnection\<close> has been called, \<open>LiStopConnection\<close> has not), the lock is free and
  the pointer is still set: a rumble callback then takes the lock and calls the handler
  that has been deleted. At the label \<open>DispatchDeferredCleanup\<close> the same two statements
  are inside the lock, and a callback at that moment spins
  (\<open>rumble_during_locked_teardown\<close>); once the pointer is cleared the callback returns
  without a call (\<open>rumble_after_teardown\<close>).
\<close>

theorem rumble_when_stream_window_fails:
  "(let env = demo_env\<lparr>SDL_CreateWindow_stream := False\<rparr> in
    case exec_connect env demo_session of
      Inl outcome \<Rightarrow> False
    | Inr s \<Rightarrow>
        exec env [] demo_session = abort_exec (null_InputHandler (delete_InputHandler s)) \<and>
        Call_LiStartConnection True \<in> set (actions s) \<and>
        Call_LiStopConnection \<notin> set (actions s) \<and>
        m_InputHandlerLock (delete_InputHandler s) = 0 \<and>
        clRumble 0 65535 65535 (delete_InputHandler s) = Calls_deleted_handler)"
proof -
  let ?env = "demo_env\<lparr>SDL_CreateWindow_stream := False\<rparr>"
  have "fst (initialize ?env demo_session)"
    by (rule initialize_succeeds)
       (simp_all add: demo_env_def demo_session_def Session_new_def demo_prefs_def)
  then obtain s1 where init: "initialize ?env demo_session = (True, s1)"
    by (cases "initialize ?env demo_session") simp
  have s1_eq: "s1 = snd (initialize ?env demo_session)"
    by (simp add: init)
  have s1: "actions s1 = []" "m_Computer s1 = demo_computer" "m_InputHandlerLock s1 = 0"
    unfolding s1_eq by (simp_all add: demo_session_def Session_new_def)
  have audio: "\<not> m_AudioDisabled s1"
  proof -
    have "m_AudioDisabled s1 = m_AudioDisabled (snd (initialize ?env demo_session))"
      by (simp add: init)
    also have "\<dots> = m_AudioDisabled (validate_audio ?env (validate_4k (validate_hdr ?env TestWindow
        (validate_hevc ?env TestWindow (validate_settings
          (initialize_decoder_capabilities ?env TestWindow (initialize_codec ?env TestWindow
            (initialize_stream_config ?env (initialize_video_callbacks ?env demo_session)))))))))"
      by (simp add: initialize_reaches_validation validateLaunch_def validate_warnings_def demo_env_def)
    also have "\<dots> = False"
      by (simp add: validate_audio_effect Let_def demo_env_def initialize_stream_config_def
            demo_session_def Session_new_def demo_prefs_def)
    finally show ?thesis by simp
  qed
  have "\<exists>s. exec_connect ?env demo_session = Inr s \<and>
          actions s = [Acquire_Semaphore, Set_ActiveSession, Call_launchApp, Call_LiStartConnection True]"
    using init s1 audio
    by (simp add: exec_connect_def Let_def demo_env_def demo_computer_def
          clStageStarting_def drSetup_def)
  then obtain s where connect: "exec_connect ?env demo_session = Inr s"
    and acts: "actions s = [Acquire_Semaphore, Set_ActiveSession, Call_launchApp, Call_LiStartConnection True]"
    by blast
  have lock: "m_InputHandlerLock s = 0"
    using exec_connect_handler(2) [OF connect] by (simp add: demo_session_def Session_new_def)
  have rumble: "clRumble 0 65535 65535 (delete_InputHandler s) = Calls_deleted_handler"
    using connect by (rule rumble_during_unlocked_teardown) (simp add: demo_session_def Session_new_def)
  have exec: "exec ?env [] demo_session = abort_exec (null_InputHandler (delete_InputHandler s))"
    by (simp add: exec_def exec_start_def connect)
  show ?thesis
    unfolding Let_def
    using connect acts lock rumble exec by (simp add: delete_InputHandler_def)
qed

subsection \<open>The random bytes of the stream configuration\<close>

text \<open>
  The key is the next 16 bytes of the random source and the initialization vector its
  next 4 bytes followed by 12 zero bytes; a build takes 20 bytes of the source. No other
  field of the configuration built from the preferences depends on the source or on the
  position in it.
\<close>

lemma RAND_bytes_length [simp]: "length (RAND_bytes env pos n) = n"
  by (simp add: RAND_bytes_def)

lemma initialize_stream_config_random:
  "cfg_remoteInputAesKey (m_StreamConfig (initialize_stream_config env s)) =
     RAND_bytes env (rand_pos s) 16"
  "cfg_remoteInputAesIv (m_StreamConfig (initialize_stream_config env s)) =
     RAND_bytes env (rand_pos s + 16) 4 @ replicate 12 0"
  "rand_pos (initialize_stream_config env s) = rand_pos s + 20"
  "(m_StreamConfig (initialize_stream_config (env\<lparr>RAND_source := source\<rparr>) (s\<lparr>rand_pos := pos\<rparr>)))
      \<lparr>cfg_remoteInputAesKey := key, cfg_remoteInputAesIv := iv\<rparr> =
   (m_StreamConfig (initialize_stream_config env s))
      \<lparr>cfg_remoteInputAesKey := key, cfg_remoteInputAesIv := iv\<rparr>"
  by (simp_all add: initialize_stream_config_def LiInitializeStreamConfiguration_def Let_def)

end
